theory Spec2Isabelle
  imports Main
begin

section \<open>The GIT Wizard model (heron), modeling_git_wizard.py\<close>

text \<open>
  A shallow embedding of \<^verbatim>\<open>src/heron/models/git_llm/git_wizard/modeling_git_wizard.py\<close>.
  Tensors are shapes with nested lists of their entries. The float tensors of the attention
  mask only ever hold the values 0, 1 and -1 and sums of two of them, which every torch
  float type represents exactly, so their entries are integers here. Every \<^verbatim>\<open>raise\<close> of the
  source and every shape error torch raises in the modelled operations is a value
  \<open>Inl e\<close> of the result.
\<close>

subsection \<open>Errors\<close>

datatype error =
    BothInputsError          \<comment> \<open>ValueError: both input_ids and inputs_embeds\<close>
  | NoInputsError            \<comment> \<open>ValueError: neither input_ids nor inputs_embeds\<close>
  | BatchSizeError           \<comment> \<open>ValueError: batch_size has to be defined and > 0\<close>
  | PixelRankError           \<comment> \<open>ValueError: pixel_values must be of rank 4 or 5\<close>
  | PaddingMaskDtypeError    \<comment> \<open>ValueError: Memory key padding mask must be a boolean tensor\<close>
  | TemporalEmbeddingError   \<comment> \<open>no img_temporal_embedding entry for the frame\<close>
  | TorchShapeError          \<comment> \<open>RuntimeError of torch: sizes do not match or do not broadcast\<close>
  | EmptyCatError            \<comment> \<open>RuntimeError of torch.cat on an empty list of tensors\<close>
  | AttributeError           \<comment> \<open>an attribute that the object does not have\<close>
  | IndexError               \<comment> \<open>an index out of the range of a list or tuple\<close>
  | ZeroDivisionError        \<comment> \<open>integer division by zero\<close>
  | AssertionError           \<comment> \<open>a failed assert\<close>

subsection \<open>Two-dimensional tensors\<close>

record 'a matrix =
  nrow :: nat
  ncol :: nat
  cells :: "'a list list"

definition wf_matrix :: "'a matrix \<Rightarrow> bool" where
  "wf_matrix A = (length (cells A) = nrow A \<and> list_all (\<lambda>r. length r = ncol A) (cells A))"

text \<open>\<^verbatim>\<open>torch.full((r, c), v)\<close>; \<^verbatim>\<open>torch.ones\<close> is \<open>full r c 1\<close>.\<close>

definition full :: "nat \<Rightarrow> nat \<Rightarrow> 'a \<Rightarrow> 'a matrix" where
  "full r c v = \<lparr>nrow = r, ncol = c, cells = replicate r (replicate c v)\<rparr>"

text \<open>\<^verbatim>\<open>torch.tril(A, diagonal=0)\<close>: entry (i, j) is kept when \<open>j \<le> i\<close> and zeroed otherwise.\<close>

definition tril :: "int matrix \<Rightarrow> int matrix" where
  "tril A = A\<lparr>cells :=
     map (\<lambda>(i, r). map (\<lambda>(j, x). if j \<le> i then x else 0) (enumerate 0 r)) (enumerate 0 (cells A))\<rparr>"

text \<open>
  \<^verbatim>\<open>torch.cat((A, B), dim=0)\<close> and \<^verbatim>\<open>torch.cat((A, B), dim=1)\<close> on two-dimensional tensors:
  the sizes must agree in the other dimension.
\<close>

definition cat0 :: "'a matrix \<Rightarrow> 'a matrix \<Rightarrow> error + 'a matrix" where
  "cat0 A B =
     (if ncol A = ncol B
      then Inr \<lparr>nrow = nrow A + nrow B, ncol = ncol A, cells = cells A @ cells B\<rparr>
      else Inl TorchShapeError)"

definition cat1 :: "'a matrix \<Rightarrow> 'a matrix \<Rightarrow> error + 'a matrix" where
  "cat1 A B =
     (if nrow A = nrow B
      then Inr \<lparr>nrow = nrow A, ncol = ncol A + ncol B, cells = map2 (@) (cells A) (cells B)\<rparr>
      else Inl TorchShapeError)"

text \<open>
  Broadcasting a dimension of size \<open>n\<close>: a list of length \<open>n\<close> stands as it is, a list of
  length 1 is repeated. The callers check that one of the two holds.
\<close>

definition broadcast :: "nat \<Rightarrow> 'a list \<Rightarrow> 'a list" where
  "broadcast n xs = (if length xs = n then xs else replicate n (hd xs))"

text \<open>\<^verbatim>\<open>.bool()\<close> on a numeric tensor: an entry is true when it is not zero.\<close>

definition to_bool :: "int matrix \<Rightarrow> bool matrix" where
  "to_bool A = \<lparr>nrow = nrow A, ncol = ncol A, cells = map (map (\<lambda>x. x \<noteq> 0)) (cells A)\<rparr>"

subsection \<open>The mask composer\<close>

text \<open>\<^verbatim>\<open>GitGPTBigCodeModel._generate_future_mask\<close>.\<close>

definition generate_future_mask :: "nat \<Rightarrow> int matrix" where
  "generate_future_mask sz = tril (full sz sz 1)"

text \<open>
  A tensor passed as \<^verbatim>\<open>memory_key_padding_mask\<close>, with its dtype: boolean or anything else.
\<close>

datatype padding_mask = BoolTensor "bool matrix" | OtherTensor "int matrix"

text \<open>
  \<^verbatim>\<open>full_attention_mask[:, :, :num_memory] = origin_left + update\<close> for one batch row:
  \<open>z\<close> is that row of \<^verbatim>\<open>zero_negative_infinity\<close>, broadcast along the columns.
\<close>

definition add_memory_update :: "nat \<Rightarrow> int list \<Rightarrow> int matrix \<Rightarrow> int matrix" where
  "add_memory_update num_memory z A = A\<lparr>cells :=
     map (\<lambda>r. map2 (+) (take num_memory r) (broadcast num_memory z) @ drop num_memory r) (cells A)\<rparr>"

text \<open>
  Lines 174 to 177: an absent \<^verbatim>\<open>memory_key_padding_mask\<close> is a boolean tensor of shape
  [memory.shape[0], memory.shape[1]] that is false everywhere.
\<close>

definition default_padding_mask :: "nat \<Rightarrow> nat \<Rightarrow> padding_mask option \<Rightarrow> padding_mask" where
  "default_padding_mask memory_bsz num_memory memory_key_padding_mask =
     (case memory_key_padding_mask of
        None \<Rightarrow> BoolTensor (full memory_bsz num_memory False)
      | Some p \<Rightarrow> p)"

text \<open>
  \<^verbatim>\<open>GitGPTBigCodeModel.create_attention_mask\<close>. Of \<^verbatim>\<open>tgt\<close> and \<^verbatim>\<open>memory\<close> it reads the shapes
  only: \<open>num_tgt\<close> is \<^verbatim>\<open>tgt.shape[1]\<close>, \<open>memory_bsz\<close> is \<^verbatim>\<open>memory.shape[0]\<close> and \<open>num_memory\<close> is
  \<^verbatim>\<open>memory.shape[1]\<close>. The result has shape [batch, 1, rows, columns]: a list over the
  batch of one-element lists.
\<close>

definition create_attention_mask ::
  "nat \<Rightarrow> nat \<Rightarrow> nat \<Rightarrow> int matrix \<Rightarrow> nat \<Rightarrow> padding_mask option \<Rightarrow> error + int matrix list list" where
  "create_attention_mask num_tgt memory_bsz num_memory tgt_mask past_key_values_length
       memory_key_padding_mask =
     (let top_left = full num_memory num_memory 1;
          top_right = full num_memory (num_tgt + past_key_values_length) 0;
          bottom_left = full num_tgt num_memory 1;
          tgt_mask1 = (if past_key_values_length > 0
                       then full (nrow tgt_mask) (nrow tgt_mask + past_key_values_length) 1
                       else tgt_mask)
      in case cat0 top_left bottom_left of Inl e \<Rightarrow> Inl e | Inr left \<Rightarrow>
         (case cat0 top_right tgt_mask1 of Inl e \<Rightarrow> Inl e | Inr right \<Rightarrow>
         (case cat1 left right of Inl e \<Rightarrow> Inl e | Inr full_attention_mask \<Rightarrow>
         (case default_padding_mask memory_bsz num_memory memory_key_padding_mask of
            OtherTensor _ \<Rightarrow> Inl PaddingMaskDtypeError
          | BoolTensor pm \<Rightarrow>
             (let zero_negative_infinity = map (map (\<lambda>b. if b then - 1 else 0)) (cells pm)
              in if ncol pm = num_memory \<or> ncol pm = 1
                 then Inr (map (\<lambda>z. [add_memory_update num_memory z full_attention_mask])
                             zero_negative_infinity)
                 else Inl TorchShapeError)))))"

subsection \<open>The user's attention mask\<close>

text \<open>
  The float types of torch and \<^verbatim>\<open>torch.finfo(dtype).min\<close>, which is an integer for each of
  them.
\<close>

datatype dtype = Float16 | BFloat16 | Float32 | Float64

fun finfo_min :: "dtype \<Rightarrow> int" where
  "finfo_min Float16 = - 65504"
| "finfo_min BFloat16 = - (2 ^ 128 - 2 ^ 120)"
| "finfo_min Float32 = - (2 ^ 128 - 2 ^ 104)"
| "finfo_min Float64 = - (2 ^ 1024 - 2 ^ 971)"

text \<open>
  \<^verbatim>\<open>_expand_mask\<close>: from [bsz, src_len] to [bsz, 1, tgt_len, src_len]. An entry of the mask
  is an integer (the mask is a tensor of 0s and 1s, which \<^verbatim>\<open>.to(dtype)\<close> converts exactly);
  \<^verbatim>\<open>inverted_mask\<close> is \<open>1 - v\<close> and every entry of it that is not zero is filled with
  \<^verbatim>\<open>torch.finfo(dtype).min\<close>.
\<close>

definition expand_mask :: "int matrix \<Rightarrow> dtype \<Rightarrow> nat option \<Rightarrow> int matrix list list" where
  "expand_mask msk dt tgt_len =
     (let bsz = nrow msk; src_len = ncol msk;
          tgt_len1 = (case tgt_len of Some t \<Rightarrow> t | None \<Rightarrow> src_len)
      in map (\<lambda>row. [\<lparr>nrow = tgt_len1, ncol = src_len,
                       cells = replicate tgt_len1
                         (map (\<lambda>v. let inverted = 1 - v
                                    in if inverted \<noteq> 0 then finfo_min dt else inverted) row)\<rparr>])
             (cells msk))"

text \<open>
  Where the slice \<^verbatim>\<open>[-n:]\<close> of a dimension of size \<open>len\<close> starts: \<^verbatim>\<open>[-0:]\<close> is \<^verbatim>\<open>[0:]\<close>,
  and a start before the first index is clamped to it.
\<close>

definition neg_start :: "nat \<Rightarrow> nat \<Rightarrow> nat" where
  "neg_start n len = (if n = 0 then 0 else len - n)"

text \<open>
  \<^verbatim>\<open>A[-n:, -n:] = torch.logical_and(A[-n:, -n:], E)\<close> for one batch row and head, \<open>E\<close>
  broadcast along the rows and the columns of the slice.
\<close>

definition and_block :: "nat \<Rightarrow> bool matrix \<Rightarrow> bool matrix \<Rightarrow> bool matrix" where
  "and_block n A E =
     (let r0 = neg_start n (nrow A); c0 = neg_start n (ncol A)
      in A\<lparr>cells :=
           take r0 (cells A) @
           map2 (\<lambda>r e. take c0 r @ map2 (\<and>) (drop c0 r) (broadcast (ncol A - c0) e))
             (drop r0 (cells A)) (broadcast (nrow A - r0) (cells E))\<rparr>)"

text \<open>
  The assignment of lines 398 to 403 on the whole tensor. The combined mask has shape
  [bsz, 1, rows, cols] and the expanded mask [am_bsz, 1, tgt_len, src_len]; torch raises
  unless every dimension of the expanded mask is that of the slice or 1.
\<close>

definition logical_and_assign ::
  "nat \<Rightarrow> nat \<Rightarrow> nat \<Rightarrow> nat \<Rightarrow> bool matrix list list \<Rightarrow> nat \<Rightarrow> nat \<Rightarrow> nat \<Rightarrow> bool matrix list list
     \<Rightarrow> error + bool matrix list list" where
  "logical_and_assign n bsz rows cols combined am_bsz tgt_len src_len expanded =
     (let r = rows - neg_start n rows; c = cols - neg_start n cols
      in if (am_bsz = bsz \<or> am_bsz = 1) \<and> (tgt_len = r \<or> tgt_len = 1) \<and> (src_len = c \<or> src_len = 1)
         then Inr (map2 (\<lambda>a e. map2 (and_block n) a e) combined (broadcast bsz expanded))
         else Inl TorchShapeError)"

text \<open>
  Lines 376 to 403 of \<^verbatim>\<open>GitGPTBigCodeModel.forward\<close>: the mask \<^verbatim>\<open>combined_attention_mask\<close>
  before the transposition for multi-query attention. \<open>bsz\<close> and \<open>num_memory\<close> are the
  first two sizes of \<^verbatim>\<open>projected_visual_features\<close>, \<open>query_length\<close> is
  \<^verbatim>\<open>input_shape[-1]\<close>, which is \<^verbatim>\<open>input_shape[1]\<close> and \<^verbatim>\<open>inputs_embeds.shape[1]\<close>.
\<close>

definition combined_attention_mask ::
  "dtype \<Rightarrow> nat \<Rightarrow> nat \<Rightarrow> nat \<Rightarrow> nat \<Rightarrow> int matrix option \<Rightarrow> error + bool matrix list list" where
  "combined_attention_mask dt bsz num_memory query_length past_length attention_mask =
     (let tgt_mask = generate_future_mask query_length
      in case create_attention_mask query_length bsz num_memory tgt_mask past_length None of
           Inl e \<Rightarrow> Inl e
         | Inr cam \<Rightarrow>
            (let combined = map (map to_bool) cam
             in case attention_mask of
                  None \<Rightarrow> Inr combined
                | Some am \<Rightarrow>
                   (let expanded_attn_mask =
                          map (map to_bool) (expand_mask am dt (Some query_length))
                    in if past_length > 0 then Inr combined
                       else logical_and_assign query_length bsz
                              (num_memory + query_length) (num_memory + past_length + query_length)
                              combined (nrow am) query_length (ncol am) expanded_attn_mask)))"

text \<open>The entry at batch row \<open>b\<close>, row \<open>i\<close> and column \<open>j\<close> of a mask of shape [batch, 1, rows, columns].\<close>

definition mask_entry :: "'a matrix list list \<Rightarrow> nat \<Rightarrow> nat \<Rightarrow> nat \<Rightarrow> 'a" where
  "mask_entry m b i j = cells (m ! b ! 0) ! i ! j"

text \<open>
  The entries of \<^verbatim>\<open>full_attention_mask\<close> at line 172, written out: \<^verbatim>\<open>left\<close> beside
  \<^verbatim>\<open>right\<close>, row by row.
\<close>

definition base_cells :: "nat \<Rightarrow> nat \<Rightarrow> nat \<Rightarrow> int matrix \<Rightarrow> int list list" where
  "base_cells N M P T1 =
     map2 (@) (cells (full M M 1) @ cells (full N M 1)) (cells (full M (N + P) 0) @ cells T1)"

subsection \<open>Three-dimensional tensors\<close>

text \<open>
  A tensor of shape [dim0, dim1, dim2] over an element type that stands for the floats of
  torch: the model only adds elements, so the type is any type with an addition.
\<close>

record 'a tensor3 =
  dim0 :: nat
  dim1 :: nat
  dim2 :: nat
  entries :: "'a list list list"

definition wf_tensor3 :: "'a tensor3 \<Rightarrow> bool" where
  "wf_tensor3 T =
     (length (entries T) = dim0 T \<and>
      list_all (\<lambda>m. length m = dim1 T \<and> list_all (\<lambda>r. length r = dim2 T) m) (entries T))"

text \<open>\<^verbatim>\<open>torch.cat(tensors, dim=1)\<close>: an empty list is an error, and so are tensors whose other sizes differ.\<close>

fun cat_dim1 :: "'a tensor3 list \<Rightarrow> error + 'a tensor3" where
  "cat_dim1 [] = Inl EmptyCatError"
| "cat_dim1 [T] = Inr T"
| "cat_dim1 (T # U # rest) =
     (case cat_dim1 (U # rest) of
        Inl e \<Rightarrow> Inl e
      | Inr R \<Rightarrow>
         if dim0 T = dim0 R \<and> dim2 T = dim2 R
         then Inr \<lparr>dim0 = dim0 T, dim1 = dim1 T + dim1 R, dim2 = dim2 T,
                   entries = map2 (@) (entries T) (entries R)\<rparr>
         else Inl TorchShapeError)"

subsection \<open>The temporal embedding of the frames\<close>

text \<open>
  \<^verbatim>\<open>pixel_values\<close> by its rank: one image per batch row (rank 4), a list of frames (rank 5,
  the frame \<open>f\<close> being \<^verbatim>\<open>pixel_values[:, f, :, :]\<close>), or a tensor of another rank.
\<close>

datatype 'img pixel_values = Rank4 'img | Rank5 "'img list" | OtherRank

text \<open>
  \<^verbatim>\<open>visual_features_frame += self.img_temporal_embedding[frame_idx]\<close>: the embedding has shape
  [1, 1, H'] and is added in place, so \<open>H'\<close> is the hidden size of the frame or 1.
\<close>

definition add_temporal_embedding :: "'a::plus tensor3 \<Rightarrow> 'a list \<Rightarrow> error + 'a tensor3" where
  "add_temporal_embedding F emb =
     (if length emb = dim2 F \<or> length emb = 1
      then Inr (F\<lparr>entries := map (map (\<lambda>r. map2 (+) r (broadcast (dim2 F) emb))) (entries F)\<rparr>)
      else Inl TorchShapeError)"

text \<open>
  The loop of lines 271 to 276. \<open>temb\<close> is \<^verbatim>\<open>self.img_temporal_embedding\<close>, which exists only
  when \<^verbatim>\<open>config.num_image_with_embedding\<close> is not None; a missing attribute and an index out
  of its range are both errors.
\<close>

fun embed_frames ::
  "('img \<Rightarrow> 'a::plus tensor3) \<Rightarrow> 'a list list option \<Rightarrow> nat \<Rightarrow> 'img list \<Rightarrow> error + 'a tensor3 list" where
  "embed_frames enc temb frame_idx [] = Inr []"
| "embed_frames enc temb frame_idx (px # rest) =
     (let visual_features_frame = enc px
      in case temb of
           None \<Rightarrow> Inl TemporalEmbeddingError
         | Some embs \<Rightarrow>
            if frame_idx < length embs
            then (case add_temporal_embedding visual_features_frame (embs ! frame_idx) of
                    Inl e \<Rightarrow> Inl e
                  | Inr f \<Rightarrow>
                     (case embed_frames enc temb (Suc frame_idx) rest of
                        Inl e \<Rightarrow> Inl e
                      | Inr fs \<Rightarrow> Inr (f # fs)))
            else Inl TemporalEmbeddingError)"

text \<open>Lines 268 to 279: the frames with their embeddings, concatenated along the sequence.\<close>

definition temporal_embedder ::
  "('img \<Rightarrow> 'a::plus tensor3) \<Rightarrow> 'a list list option \<Rightarrow> 'img list \<Rightarrow> error + 'a tensor3" where
  "temporal_embedder enc temb frames =
     (case embed_frames enc temb 0 frames of
        Inl e \<Rightarrow> Inl e
      | Inr visual_features \<Rightarrow> cat_dim1 visual_features)"

subsection \<open>The loss\<close>

text \<open>\<^verbatim>\<open>.view(-1, k)\<close> of a tensor with the entries \<open>flat\<close> in row-major order.\<close>

fun chunks :: "nat \<Rightarrow> nat \<Rightarrow> 'a list \<Rightarrow> 'a list list" where
  "chunks 0 k xs = []"
| "chunks (Suc n) k xs = take k xs # chunks n k (drop k xs)"

definition view_rows :: "nat \<Rightarrow> 'a list \<Rightarrow> error + 'a list list" where
  "view_rows k flat =
     (if k = 0 then Inl TorchShapeError
      else if length flat mod k = 0 then Inr (chunks (length flat div k) k flat)
      else Inl TorchShapeError)"

text \<open>
  Lines 555 to 562 of \<^verbatim>\<open>GitGPTBigCodeForCausalLM.forward\<close>. \<open>ce\<close> is \<^verbatim>\<open>CrossEntropyLoss()\<close>, a
  function of the flattened logits and labels that may raise; \<open>num_image_tokens\<close> is
  \<^verbatim>\<open>self.model.image_patch_tokens\<close>. \<^verbatim>\<open>logits[:, k:-1, :]\<close> drops the last position and then
  the first \<open>k\<close>; \<^verbatim>\<open>labels[:, 1:]\<close> drops the first label.
\<close>

definition lm_loss ::
  "('a list list \<Rightarrow> int list \<Rightarrow> error + 'r) \<Rightarrow> nat \<Rightarrow> nat \<Rightarrow> 'a tensor3 \<Rightarrow> int matrix option
     \<Rightarrow> error + 'r option" where
  "lm_loss ce vocab_size num_image_tokens logits labels =
     (case labels of
        None \<Rightarrow> Inr None
      | Some lab \<Rightarrow>
         (let shifted_logits = map (\<lambda>rows. drop num_image_tokens (butlast rows)) (entries logits);
              labels1 = map tl (cells lab)
          in case view_rows vocab_size (concat (concat shifted_logits)) of
               Inl e \<Rightarrow> Inl e
             | Inr inp \<Rightarrow>
                (case ce inp (concat labels1) of
                   Inl e \<Rightarrow> Inl e
                 | Inr l \<Rightarrow> Inr (Some l))))"

subsection \<open>The configuration\<close>

text \<open>
  The values of a configuration's attributes: None, integers, booleans, strings, a
  vision configuration object, a dictionary, and any other object.
\<close>

datatype ('v, 'c) pyval =
    PyNone
  | PyInt int
  | PyBool bool
  | PyStr string
  | PyObject 'c
  | PyDict "(string \<times> ('v, 'c) pyval) list"
  | PyOther 'v

text \<open>The class attribute \<^verbatim>\<open>GitGPTBigCodeConfig.model_type\<close>.\<close>

definition GitGPTBigCodeConfig_model_type :: string where
  "GitGPTBigCodeConfig_model_type = ''git_llama''"

text \<open>
  \<^verbatim>\<open>x == 1\<close> in Python: true of the integer 1 and of True, false of None, of a string, of a
  dictionary and of a configuration object. Of any other object (a float such as 1.0, a
  number of another library) its own comparison decides: \<open>other_equals_one\<close>.
\<close>

fun equals_one :: "('v \<Rightarrow> bool) \<Rightarrow> ('v, 'c) pyval \<Rightarrow> bool" where
  "equals_one other_equals_one (PyInt n) = (n = 1)"
| "equals_one other_equals_one (PyBool b) = b"
| "equals_one other_equals_one (PyOther v) = other_equals_one v"
| "equals_one other_equals_one _ = False"

text \<open>
  \<^verbatim>\<open>GitGPTBigCodeConfig.set_vision_configs\<close> on the instance's attribute dictionary.
  \<open>from_pretrained\<close> is \<^verbatim>\<open>CLIPVisionConfig.from_pretrained\<close>, which may raise.
\<close>

definition set_vision_configs ::
  "('v \<Rightarrow> bool) \<Rightarrow> (('v, 'c) pyval \<Rightarrow> error + 'c) \<Rightarrow> ('v, 'c) pyval \<Rightarrow> ('v, 'c) pyval
     \<Rightarrow> (string \<rightharpoonup> ('v, 'c) pyval) \<Rightarrow> error + (string \<rightharpoonup> ('v, 'c) pyval)" where
  "set_vision_configs other_equals_one from_pretrained num_image_with_embedding vision_model_name
       self_dict =
     (case from_pretrained vision_model_name of
        Inl e \<Rightarrow> Inl e
      | Inr vc \<Rightarrow>
         Inr (self_dict
               (''num_image_with_embedding'' \<mapsto>
                  (if equals_one other_equals_one num_image_with_embedding then PyNone
                   else num_image_with_embedding),
                ''vision_model_name'' \<mapsto> vision_model_name,
                ''vision_config'' \<mapsto> PyObject vc)))"

text \<open>
  \<^verbatim>\<open>GitGPTBigCodeConfig.__init__\<close>: \<open>self_dict\<close> holds the attributes that
  \<^verbatim>\<open>super().__init__(**kwargs)\<close> has set, \<open>default_vision\<close> is \<^verbatim>\<open>CLIPVisionConfig()\<close>.
\<close>

definition config_init ::
  "('v \<Rightarrow> bool) \<Rightarrow> 'c \<Rightarrow> (('v, 'c) pyval \<Rightarrow> error + 'c) \<Rightarrow> (string \<rightharpoonup> ('v, 'c) pyval)
     \<Rightarrow> error + (string \<rightharpoonup> ('v, 'c) pyval)" where
  "config_init other_equals_one default_vision from_pretrained self_dict =
     (case self_dict ''vision_model_name'' of
        Some vision_model_name \<Rightarrow>
          (case self_dict ''num_image_with_embedding'' of
             None \<Rightarrow> Inl AttributeError
           | Some n \<Rightarrow>
              set_vision_configs other_equals_one from_pretrained n vision_model_name self_dict)
      | None \<Rightarrow>
          Inr (self_dict(''vision_config'' \<mapsto> PyObject default_vision,
                         ''num_image_with_embedding'' \<mapsto> PyNone)))"

text \<open>
  \<^verbatim>\<open>GitGPTBigCodeConfig.to_dict\<close>. \<open>self_dict\<close> is \<^verbatim>\<open>self.__dict__\<close>, whose deep copy has the
  same entries; \<open>vision_to_dict\<close> is the \<^verbatim>\<open>to_dict\<close> of the vision configuration and
  \<open>cls_model_type\<close> is \<^verbatim>\<open>self.__class__.model_type\<close>. An instance without the attribute
  \<^verbatim>\<open>vision_config\<close>, or with one that is not a configuration object, raises.
\<close>

definition to_dict ::
  "('c \<Rightarrow> (string \<times> ('v, 'c) pyval) list) \<Rightarrow> string \<Rightarrow> (string \<rightharpoonup> ('v, 'c) pyval)
     \<Rightarrow> error + (string \<rightharpoonup> ('v, 'c) pyval)" where
  "to_dict vision_to_dict cls_model_type self_dict =
     (let output = self_dict
      in case self_dict ''vision_config'' of
           Some (PyObject vc) \<Rightarrow>
             Inr (output(''vision_config'' \<mapsto> PyDict (vision_to_dict vc),
                         ''model_type'' \<mapsto> PyStr cls_model_type))
         | _ \<Rightarrow> Inl AttributeError)"

text \<open>A frame with an embedding vector of its hidden size added at every position.\<close>

definition shifted :: "'a::plus tensor3 \<Rightarrow> 'a list \<Rightarrow> 'a tensor3" where
  "shifted F emb = F\<lparr>entries := map (map (\<lambda>r. map2 (+) r emb)) (entries F)\<rparr>"

subsection \<open>Tensor operations of the forward pass\<close>

text \<open>The size two broadcast sizes give, if they broadcast: they are equal, or one of them is 1.\<close>

definition bc_dim :: "nat \<Rightarrow> nat \<Rightarrow> nat option" where
  "bc_dim x y = (if x = y then Some x else if x = 1 then Some y else if y = 1 then Some x else None)"

text \<open>\<^verbatim>\<open>T + U\<close> on three-dimensional tensors, with broadcasting.\<close>

definition add_tensor3 :: "'a::plus tensor3 \<Rightarrow> 'a tensor3 \<Rightarrow> error + 'a tensor3" where
  "add_tensor3 T U =
     (case (bc_dim (dim0 T) (dim0 U), bc_dim (dim1 T) (dim1 U), bc_dim (dim2 T) (dim2 U)) of
        (Some x, Some y, Some z) \<Rightarrow>
          Inr \<lparr>dim0 = x, dim1 = y, dim2 = z,
               entries =
                 map2 (\<lambda>A B. map2 (\<lambda>r s. map2 (+) (broadcast z r) (broadcast z s))
                                (broadcast y A) (broadcast y B))
                   (broadcast x (entries T)) (broadcast x (entries U))\<rparr>
      | _ \<Rightarrow> Inl TorchShapeError)"

text \<open>\<^verbatim>\<open>T.repeat(n, 1, 1)\<close>.\<close>

definition repeat_dim0 :: "nat \<Rightarrow> 'a tensor3 \<Rightarrow> 'a tensor3" where
  "repeat_dim0 n T = T\<lparr>dim0 := n * dim0 T, entries := concat (replicate n (entries T))\<rparr>"

text \<open>\<^verbatim>\<open>A.view(-1, k)\<close> on a tensor of token or position ids.\<close>

definition view_matrix :: "nat \<Rightarrow> int matrix \<Rightarrow> error + int matrix" where
  "view_matrix k A =
     (case view_rows k (concat (cells A)) of
        Inl e \<Rightarrow> Inl e
      | Inr rows \<Rightarrow> Inr \<lparr>nrow = length rows, ncol = k, cells = rows\<rparr>)"

definition view_opt :: "nat \<Rightarrow> int matrix option \<Rightarrow> error + int matrix option" where
  "view_opt k x =
     (case x of
        None \<Rightarrow> Inr None
      | Some A \<Rightarrow> (case view_matrix k A of Inl e \<Rightarrow> Inl e | Inr B \<Rightarrow> Inr (Some B)))"

text \<open>\<^verbatim>\<open>T.view(shape)\<close> for a shape of three sizes: the number of elements must be the same.\<close>

definition view_tensor3 :: "nat \<times> nat \<times> nat \<Rightarrow> 'a tensor3 \<Rightarrow> error + 'a tensor3" where
  "view_tensor3 shape T =
     (case shape of (x, y, z) \<Rightarrow>
        (let flat = concat (concat (entries T))
         in if length flat = x * y * z
            then Inr \<lparr>dim0 = x, dim1 = y, dim2 = z, entries = chunks x y (chunks (x * y) z flat)\<rparr>
            else Inl TorchShapeError))"

subsection \<open>The stages of a forward pass\<close>

text \<open>
  A forward pass returns its result, or the error it raised, with the stages it entered
  before, in their order. A stage is entered when its first statement runs.
\<close>

datatype stage =
    VisualEncoding     \<comment> \<open>lines 263 to 283: the image encoder, the temporal embedding, the projection\<close>
  | TextEmbedding      \<comment> \<open>line 286: \<^verbatim>\<open>self.wte(input_ids)\<close>\<close>
  | Fusion             \<comment> \<open>lines 329 to 341: the visual features before the text embeddings\<close>
  | PositionEmbedding  \<comment> \<open>lines 343 to 372: position and token type embeddings, dropout\<close>
  | MaskComposition    \<comment> \<open>lines 376 to 406\<close>
  | DecoderBlock nat   \<comment> \<open>one block of \<^verbatim>\<open>self.h\<close>\<close>
  | FinalNorm          \<comment> \<open>lines 462 to 464\<close>
  | LmHead             \<comment> \<open>line 553\<close>
  | LossComputation    \<comment> \<open>lines 556 to 562\<close>

type_synonym 'x traced = "stage list \<times> (error + 'x)"

definition returns :: "'x \<Rightarrow> 'x traced" where
  "returns x = ([], Inr x)"

definition raises :: "error \<Rightarrow> 'x traced" where
  "raises e = ([], Inl e)"

definition lifted :: "error + 'x \<Rightarrow> 'x traced" where
  "lifted r = ([], r)"

definition at_stage :: "stage \<Rightarrow> error + 'x \<Rightarrow> 'x traced" where
  "at_stage st r = ([st], r)"

definition and_then :: "'x traced \<Rightarrow> ('x \<Rightarrow> 'y traced) \<Rightarrow> 'y traced" where
  "and_then m f =
     (case m of
        (l, Inl e) \<Rightarrow> (l, Inl e)
      | (l, Inr x) \<Rightarrow> (case f x of (l2, r) \<Rightarrow> (l @ l2, r)))"

text \<open>\<^verbatim>\<open>x if x is not None else d\<close>.\<close>

definition resolve :: "'x option \<Rightarrow> 'x \<Rightarrow> 'x" where
  "resolve x d = (case x of Some v \<Rightarrow> v | None \<Rightarrow> d)"

subsection \<open>The parts of \<^verbatim>\<open>GitGPTBigCodeModel.forward\<close>\<close>

text \<open>
  Lines 228 to 241: the batch size and the query length \<^verbatim>\<open>input_shape[-1]\<close>. The token ids
  have shape [batch, length]; \<^verbatim>\<open>input_ids.view(-1, input_shape[-1])\<close> fails on a length of 0.
  (\<^verbatim>\<open>warn_if_padding_and_no_attention_mask\<close> only logs.)
\<close>

definition check_inputs :: "int matrix option \<Rightarrow> 'a tensor3 option \<Rightarrow> error + nat \<times> nat" where
  "check_inputs input_ids inputs_embeds =
     (case (input_ids, inputs_embeds) of
        (Some _, Some _) \<Rightarrow> Inl BothInputsError
      | (Some ids, None) \<Rightarrow>
          (case view_matrix (ncol ids) ids of
             Inl e \<Rightarrow> Inl e
           | Inr ids1 \<Rightarrow> Inr (nrow ids1, ncol ids))
      | (None, Some emb) \<Rightarrow> Inr (dim0 emb, dim1 emb)
      | (None, None) \<Rightarrow> Inl NoInputsError)"

text \<open>
  Lines 255 to 259: \<open>cache_length\<close> is \<^verbatim>\<open>.size(-2)\<close> of a cache entry, and
  \<^verbatim>\<open>past_key_values[0]\<close> of an empty list raises.
\<close>

definition past_length_of :: "('t \<Rightarrow> nat) \<Rightarrow> 't list option \<Rightarrow> error + nat" where
  "past_length_of cache_length past_key_values =
     (case past_key_values of
        None \<Rightarrow> Inr 0
      | Some [] \<Rightarrow> Inl IndexError
      | Some (kv # _) \<Rightarrow> Inr (cache_length kv))"

text \<open>
  Lines 262 to 283, the GIT vision encoder part: it runs only when pixel values are given
  and no past is.
\<close>

definition encode_visual ::
  "('img \<Rightarrow> 'a::plus tensor3) \<Rightarrow> ('a tensor3 \<Rightarrow> 'a tensor3) \<Rightarrow> 'a list list option
     \<Rightarrow> 'img pixel_values option \<Rightarrow> 't list option \<Rightarrow> 'a tensor3 option traced" where
  "encode_visual image_encoder visual_projection img_temporal_embedding pixel_values past_key_values =
     (case pixel_values of
        None \<Rightarrow> returns None
      | Some pv \<Rightarrow>
         (case past_key_values of
            Some _ \<Rightarrow> returns None
          | None \<Rightarrow>
             at_stage VisualEncoding
               (case pv of
                  Rank4 px \<Rightarrow> Inr (Some (visual_projection (image_encoder px)))
                | Rank5 frames \<Rightarrow>
                   (case temporal_embedder image_encoder img_temporal_embedding frames of
                      Inl e \<Rightarrow> Inl e
                    | Inr visual_features \<Rightarrow> Inr (Some (visual_projection visual_features)))
                | OtherRank \<Rightarrow> Inl PixelRankError)))"

text \<open>
  Lines 313 to 327. \<open>tensor_dim\<close> is \<^verbatim>\<open>.dim()\<close> and \<open>bool_unsqueeze\<close> is
  \<^verbatim>\<open>.bool().unsqueeze(k)\<close>; the \<^verbatim>\<open>unsqueeze(1)\<close> of line 321 is not assigned, so a mask of two
  dimensions fails the assertion.
\<close>

definition prepare_encoder_mask ::
  "bool \<Rightarrow> bool \<Rightarrow> ('t \<Rightarrow> nat) \<Rightarrow> ('t \<Rightarrow> nat \<Rightarrow> 't) \<Rightarrow> 't option \<Rightarrow> 't option \<Rightarrow> error + 't option" where
  "prepare_encoder_mask add_cross_attention multi_query tensor_dim bool_unsqueeze
       encoder_hidden_states encoder_attention_mask =
     (case (add_cross_attention, encoder_hidden_states, encoder_attention_mask) of
        (True, Some _, Some em) \<Rightarrow>
          if tensor_dim em = 3
          then Inr (Some (bool_unsqueeze em (if multi_query then 2 else 1)))
          else Inl AssertionError
      | _ \<Rightarrow> Inr None)"

text \<open>Lines 329 to 334: without visual features the block is an empty tensor of shape [batch, 0, hidden].\<close>

definition default_visual_features :: "'a tensor3 option \<Rightarrow> 'a tensor3 \<Rightarrow> 'a tensor3" where
  "default_visual_features projected_visual_features inputs_embeds =
     (case projected_visual_features of
        Some pvf \<Rightarrow> pvf
      | None \<Rightarrow> \<lparr>dim0 = dim0 inputs_embeds, dim1 = 0, dim2 = dim2 inputs_embeds,
                   entries = replicate (dim0 inputs_embeds) []\<rparr>)"

text \<open>
  Lines 329 to 341: the visual features, repeated along the batch, before the text
  embeddings. The result is the repeated visual block and \<^verbatim>\<open>hidden_states\<close>.
\<close>

definition fuse :: "'a tensor3 option \<Rightarrow> 'a tensor3 \<Rightarrow> ('a tensor3 \<times> 'a tensor3) traced" where
  "fuse projected_visual_features inputs_embeds =
     at_stage Fusion
       (let pvf0 = default_visual_features projected_visual_features inputs_embeds
        in if dim0 pvf0 = 0 then Inl ZeroDivisionError
           else (let pvf = repeat_dim0 (dim0 inputs_embeds div dim0 pvf0) pvf0
                 in case cat_dim1 [pvf, inputs_embeds] of
                      Inl e \<Rightarrow> Inl e
                    | Inr hidden_states \<Rightarrow> Inr (pvf, hidden_states)))"

text \<open>Lines 343 to 357: the position ids, of shape [-1, query_length + visual tokens].\<close>

definition position_ids_of :: "int matrix option \<Rightarrow> nat \<Rightarrow> nat \<Rightarrow> nat \<Rightarrow> error + int matrix" where
  "position_ids_of position_ids past_length query_length num_visual =
     (case position_ids of
        None \<Rightarrow>
          view_matrix (query_length + num_visual)
            \<lparr>nrow = 1, ncol = query_length + num_visual,
             cells = [map int [past_length ..< query_length + num_visual + past_length]]\<rparr>
      | Some p \<Rightarrow> view_matrix (query_length + num_visual) p)"

text \<open>
  Lines 405 and 406: the mask as nested lists [batch][1][row][column], and with the second
  and third axes exchanged for multi-query attention.
\<close>

definition mask_for_blocks :: "bool \<Rightarrow> bool matrix list list \<Rightarrow> bool list list list list" where
  "mask_for_blocks multi_query combined =
     (let nested = map (map cells) combined
      in if multi_query then map transpose nested else nested)"

subsection \<open>The model and its collaborators\<close>

text \<open>
  What a decoder block returns: \<^verbatim>\<open>outputs[0]\<close>, the cache entry \<^verbatim>\<open>outputs[1]\<close> read when
  the cache is used, and the attention and cross-attention tensors read when attentions are
  asked for. \<open>'t\<close> is the type of the tensors the model only hands on: cache entries,
  attentions, head masks and encoder states.
\<close>

record ('a, 't) block_outputs =
  block_hidden :: "'a tensor3"
  block_present :: 't
  block_attention :: 't
  block_cross_attention :: 't

text \<open>
  A block as a function of \<^verbatim>\<open>hidden_states\<close>, \<^verbatim>\<open>layer_past\<close>, \<^verbatim>\<open>attention_mask\<close>, \<^verbatim>\<open>head_mask\<close>,
  \<^verbatim>\<open>encoder_hidden_states\<close>, \<^verbatim>\<open>encoder_attention_mask\<close>, \<^verbatim>\<open>use_cache\<close> and
  \<^verbatim>\<open>output_attentions\<close>.
\<close>

type_synonym ('a, 't) block =
  "'a tensor3 \<Rightarrow> 't option \<Rightarrow> bool list list list list \<Rightarrow> 't option \<Rightarrow> 't option \<Rightarrow> 't option
     \<Rightarrow> bool \<Rightarrow> bool \<Rightarrow> ('a, 't) block_outputs"

record git_config =
  config_output_attentions :: bool
  config_output_hidden_states :: bool
  config_use_cache :: bool
  config_use_return_dict :: bool
  config_add_cross_attention :: bool
  config_n_layer :: nat
  config_vocab_size :: nat

text \<open>
  The model: its configuration, its flags and its modules, which are functions here. The
  dropout is a function too: a module in training mode is read with its random state fixed.
  \<open>embeds_dtype\<close> is \<^verbatim>\<open>inputs_embeds.dtype\<close>.
\<close>

record ('a, 'img, 't) git_model =
  config :: git_config
  multi_query :: bool
  gradient_checkpointing :: bool
  training :: bool
  image_patch_tokens :: nat
  embeds_dtype :: dtype
  image_encoder :: "'img \<Rightarrow> 'a tensor3"
  visual_projection :: "'a tensor3 \<Rightarrow> 'a tensor3"
  img_temporal_embedding :: "'a list list option"
  wte :: "int matrix \<Rightarrow> 'a tensor3"
  wpe :: "int matrix \<Rightarrow> 'a tensor3"
  dropout :: "'a tensor3 \<Rightarrow> 'a tensor3"
  blocks :: "('a, 't) block list"
  ln_f :: "'a tensor3 \<Rightarrow> 'a tensor3"
  lm_head :: "'a tensor3 \<Rightarrow> 'a tensor3"
  get_head_mask :: "'t option \<Rightarrow> nat \<Rightarrow> nat \<Rightarrow> 't option"
  cross_entropy :: "'a list list \<Rightarrow> int list \<Rightarrow> error + 'a"
  cache_length :: "'t \<Rightarrow> nat"
  tensor_dim :: "'t \<Rightarrow> nat"
  bool_unsqueeze :: "'t \<Rightarrow> nat \<Rightarrow> 't"

text \<open>The arguments both forward functions take, those of the model and those of the wrapper.\<close>

record ('a, 'img, 't) common_args =
  input_ids :: "int matrix option"
  past_key_values :: "'t list option"
  attention_mask :: "int matrix option"
  position_ids :: "int matrix option"
  pixel_values :: "'img pixel_values option"
  inputs_embeds :: "'a tensor3 option"
  use_cache :: "bool option"
  output_attentions :: "bool option"
  output_hidden_states :: "bool option"
  return_dict :: "bool option"

record ('a, 'img, 't) model_args = "('a, 'img, 't) common_args" +
  token_type_ids :: "int matrix option"
  head_mask :: "'t option"
  encoder_hidden_states :: "'t option"
  encoder_attention_mask :: "'t option"

record ('a, 'img, 't) lm_args = "('a, 'img, 't) common_args" +
  labels :: "int matrix option"

text \<open>The state of the loop over the blocks, and one turn of it (lines 419 to 460).\<close>

record ('a, 't) loop_state =
  hidden_states :: "'a tensor3"
  presents :: "'t list"
  all_hidden_states :: "'a tensor3 list"
  all_self_attentions :: "'t list"
  all_cross_attentions :: "'t list"

definition decoder_step ::
  "('a, 'img, 't) git_model \<Rightarrow> bool \<Rightarrow> bool \<Rightarrow> bool \<Rightarrow> bool list list list list \<Rightarrow> 't option
     \<Rightarrow> 't option \<Rightarrow> 't option \<Rightarrow> ('a, 't) loop_state \<Rightarrow> nat \<times> ('a, 't) block \<times> 't option
     \<Rightarrow> ('a, 't) loop_state" where
  "decoder_step m use_cache1 output_attentions1 output_hidden_states1 combined_attention_mask1
       head_mask1 encoder_hidden_states1 encoder_attention_mask1 st turn =
     (case turn of (i, block, layer_past) \<Rightarrow>
        (let st1 = (if output_hidden_states1
                    then st\<lparr>all_hidden_states := all_hidden_states st @ [hidden_states st]\<rparr>
                    else st);
             outputs =
               (if gradient_checkpointing m \<and> training m
                then block (hidden_states st1) None combined_attention_mask1
                       (get_head_mask m head_mask1 (config_n_layer (config m)) i)
                       encoder_hidden_states1 encoder_attention_mask1 use_cache1 output_attentions1
                else block (hidden_states st1) layer_past combined_attention_mask1
                       (get_head_mask m head_mask1 (config_n_layer (config m)) i)
                       encoder_hidden_states1 encoder_attention_mask1 use_cache1 output_attentions1);
             st2 = st1\<lparr>hidden_states := block_hidden outputs\<rparr>;
             st3 = (if use_cache1 then st2\<lparr>presents := presents st2 @ [block_present outputs]\<rparr>
                    else st2)
         in if output_attentions1
            then (let st4 = st3\<lparr>all_self_attentions :=
                                  all_self_attentions st3 @ [block_attention outputs]\<rparr>
                  in if config_add_cross_attention (config m)
                     then st4\<lparr>all_cross_attentions :=
                                all_cross_attentions st4 @ [block_cross_attention outputs]\<rparr>
                     else st4)
            else st3))"

text \<open>
  What the model returns: \<^verbatim>\<open>BaseModelOutputWithPastAndCrossAttentions\<close>, or, when
  \<^verbatim>\<open>return_dict\<close> is false, the tuple of its fields that are not None. The first of them is
  always the last hidden state, so the tuple is that state and the list of the others.
\<close>

record ('a, 't) base_model_output =
  last_hidden_state :: "'a tensor3"
  out_past_key_values :: "'t list option"
  out_hidden_states :: "'a tensor3 list option"
  out_attentions :: "'t list option"
  out_cross_attentions :: "'t list option"

datatype ('a, 't) item =
    LossItem 'a
  | LogitsItem "'a tensor3"
  | PresentsItem "'t list"
  | HiddenStatesItem "'a tensor3 list"
  | AttentionsItem "'t list"
  | CrossAttentionsItem "'t list"

datatype ('a, 't) model_result =
    TupleResult "'a tensor3" "('a, 't) item list"
  | DictResult "('a, 't) base_model_output"

text \<open>The tuple of line 470: an entry for every value that is not None.\<close>

definition optional_item :: "('x \<Rightarrow> ('a, 't) item) \<Rightarrow> 'x option \<Rightarrow> ('a, 't) item list" where
  "optional_item mk x = (case x of None \<Rightarrow> [] | Some v \<Rightarrow> [mk v])"

subsection \<open>\<^verbatim>\<open>GitGPTBigCodeModel.forward\<close>\<close>

text \<open>
  Lines 343 to 372: position embeddings, token type embeddings and dropout on the fused
  sequence.
\<close>

definition embed_positions ::
  "('a::plus, 'img, 't) git_model \<Rightarrow> int matrix option \<Rightarrow> int matrix option \<Rightarrow> nat \<Rightarrow> nat \<Rightarrow> nat
     \<Rightarrow> 'a tensor3 \<Rightarrow> 'a tensor3 traced" where
  "embed_positions m position_ids1 token_type_ids1 past_length query_length num_visual hidden0 =
     at_stage PositionEmbedding
       (case position_ids_of position_ids1 past_length query_length num_visual of
          Inl e \<Rightarrow> Inl e
        | Inr position_ids2 \<Rightarrow>
           (case add_tensor3 hidden0 (wpe m position_ids2) of
              Inl e \<Rightarrow> Inl e
            | Inr hidden1 \<Rightarrow>
               (case token_type_ids1 of
                  None \<Rightarrow> Inr (dropout m hidden1)
                | Some tt \<Rightarrow>
                   (case add_tensor3 hidden1 (wte m tt) of
                      Inl e \<Rightarrow> Inl e
                    | Inr hidden2 \<Rightarrow> Inr (dropout m hidden2)))))"

text \<open>Lines 408 to 467: the loop over the blocks, the final norm and the view.\<close>

definition run_decoder ::
  "('a, 'img, 't) git_model \<Rightarrow> bool \<Rightarrow> bool \<Rightarrow> bool \<Rightarrow> bool list list list list \<Rightarrow> 't option
     \<Rightarrow> 't option \<Rightarrow> 't option \<Rightarrow> 't list option \<Rightarrow> 'a tensor3 \<Rightarrow> ('a, 't) loop_state traced" where
  "run_decoder m use_cache1 output_attentions1 output_hidden_states1 combined_attention_mask1
       head_mask1 encoder_hidden_states1 encoder_attention_mask1 past_key_values1 hidden0 =
     (let layer_pasts = (case past_key_values1 of
                           None \<Rightarrow> replicate (length (blocks m)) None
                         | Some l \<Rightarrow> map Some l);
          turns = enumerate 0 (zip (blocks m) layer_pasts);
          output_shape = (dim0 hidden0, dim1 hidden0, dim2 hidden0);
          st = foldl (decoder_step m use_cache1 output_attentions1 output_hidden_states1
                        combined_attention_mask1 head_mask1 encoder_hidden_states1
                        encoder_attention_mask1)
                 \<lparr>hidden_states = hidden0, presents = [], all_hidden_states = [],
                  all_self_attentions = [], all_cross_attentions = []\<rparr>
                 turns
      in and_then (map (\<lambda>turn. DecoderBlock (fst turn)) turns, Inr st) (\<lambda>st.
         and_then (at_stage FinalNorm (view_tensor3 output_shape (ln_f m (hidden_states st))))
           (\<lambda>hidden1.
         returns (if output_hidden_states1
                  then st\<lparr>hidden_states := hidden1,
                          all_hidden_states := all_hidden_states st @ [hidden1]\<rparr>
                  else st\<lparr>hidden_states := hidden1\<rparr>))))"

text \<open>Lines 413 to 418 and 469 to 488: what is None in the result, and the two forms of it.\<close>

definition model_output ::
  "bool \<Rightarrow> bool \<Rightarrow> bool \<Rightarrow> bool \<Rightarrow> bool \<Rightarrow> ('a, 't) loop_state \<Rightarrow> ('a, 't) model_result" where
  "model_output return_dict1 use_cache1 output_attentions1 output_hidden_states1 add_cross_attention st =
     (let presents1 = (if use_cache1 then Some (presents st) else None);
          all_hidden_states1 = (if output_hidden_states1 then Some (all_hidden_states st) else None);
          all_self_attentions1 = (if output_attentions1 then Some (all_self_attentions st) else None);
          all_cross_attentions1 = (if output_attentions1 \<and> add_cross_attention
                                   then Some (all_cross_attentions st) else None)
      in if \<not> return_dict1
         then TupleResult (hidden_states st)
                (optional_item PresentsItem presents1 @
                 optional_item HiddenStatesItem all_hidden_states1 @
                 optional_item AttentionsItem all_self_attentions1 @
                 optional_item CrossAttentionsItem all_cross_attentions1)
         else DictResult
                \<lparr>last_hidden_state = hidden_states st,
                 out_past_key_values = presents1,
                 out_hidden_states = all_hidden_states1,
                 out_attentions = all_self_attentions1,
                 out_cross_attentions = all_cross_attentions1\<rparr>)"

definition forward ::
  "('a::plus, 'img, 't) git_model \<Rightarrow> ('a, 'img, 't) model_args \<Rightarrow> ('a, 't) model_result traced" where
  "forward m a =
     (let output_attentions1 = resolve (output_attentions a) (config_output_attentions (config m));
          output_hidden_states1 =
            resolve (output_hidden_states a) (config_output_hidden_states (config m));
          use_cache1 = resolve (use_cache a) (config_use_cache (config m));
          return_dict1 = resolve (return_dict a) (config_use_return_dict (config m))
      in and_then (lifted (check_inputs (input_ids a) (inputs_embeds a))) (\<lambda>(batch_size, query_length).
         if batch_size \<le> 0 then raises BatchSizeError
         else
         and_then (lifted (view_opt query_length (token_type_ids a))) (\<lambda>token_type_ids1.
         and_then (lifted (view_opt query_length (position_ids a))) (\<lambda>position_ids1.
         and_then (lifted (past_length_of (cache_length m) (past_key_values a))) (\<lambda>past_length.
         and_then (encode_visual (image_encoder m) (visual_projection m) (img_temporal_embedding m)
                     (pixel_values a) (past_key_values a)) (\<lambda>projected_visual_features.
         and_then (case inputs_embeds a of
                     Some emb \<Rightarrow> returns emb
                   | None \<Rightarrow>
                      (case input_ids a of
                         Some ids \<Rightarrow> at_stage TextEmbedding (Inr (wte m ids))
                       | None \<Rightarrow> raises NoInputsError)) (\<lambda>inputs_embeds1.
         and_then (lifted (prepare_encoder_mask (config_add_cross_attention (config m))
                     (multi_query m) (tensor_dim m) (bool_unsqueeze m)
                     (encoder_hidden_states a) (encoder_attention_mask a))) (\<lambda>encoder_attention_mask1.
         and_then (fuse projected_visual_features inputs_embeds1) (\<lambda>(pvf, hidden0).
         and_then (embed_positions m position_ids1 token_type_ids1 past_length query_length
                     (dim1 pvf) hidden0) (\<lambda>hidden1.
         and_then (at_stage MaskComposition
                     (combined_attention_mask (embeds_dtype m) (dim0 pvf) (dim1 pvf) query_length
                        past_length (attention_mask a))) (\<lambda>combined.
         and_then (run_decoder m use_cache1 output_attentions1 output_hidden_states1
                     (mask_for_blocks (multi_query m) combined) (head_mask a)
                     (encoder_hidden_states a) encoder_attention_mask1 (past_key_values a) hidden1)
           (\<lambda>st.
         returns (model_output return_dict1 use_cache1 output_attentions1 output_hidden_states1
                    (config_add_cross_attention (config m)) st)))))))))))))"

subsection \<open>\<^verbatim>\<open>GitGPTBigCodeForCausalLM.forward\<close>\<close>

record ('a, 't) causal_lm_output =
  loss :: "'a option"
  logits :: "'a tensor3"
  lm_past_key_values :: "'t list option"
  lm_hidden_states :: "'a tensor3 list option"
  lm_attentions :: "'t list option"

datatype ('a, 't) lm_result =
    LMTuple "('a, 't) item list"
  | LMDict "('a, 't) causal_lm_output"

text \<open>
  The wrapper hands its arguments to the model; the arguments of the model it does not
  name are None there.
\<close>

definition model_args_of ::
  "('a, 'img, 't) lm_args \<Rightarrow> bool option \<Rightarrow> bool \<Rightarrow> ('a, 'img, 't) model_args" where
  "model_args_of a use_cache1 return_dict1 =
     \<lparr>input_ids = input_ids a,
      past_key_values = past_key_values a,
      attention_mask = attention_mask a,
      position_ids = position_ids a,
      pixel_values = pixel_values a,
      inputs_embeds = inputs_embeds a,
      use_cache = use_cache1,
      output_attentions = output_attentions a,
      output_hidden_states = output_hidden_states a,
      return_dict = Some return_dict1,
      token_type_ids = None,
      head_mask = None,
      encoder_hidden_states = None,
      encoder_attention_mask = None\<rparr>"

text \<open>
  Lines 564 to 574. The model returned a tuple when \<^verbatim>\<open>return_dict\<close> is false and an output
  object otherwise; a tuple has no attribute \<^verbatim>\<open>past_key_values\<close>, and of an output object
  \<^verbatim>\<open>outputs[1:]\<close> are its fields after the first that are not None.
\<close>

definition lm_output ::
  "bool \<Rightarrow> 'a option \<Rightarrow> 'a tensor3 \<Rightarrow> ('a, 't) model_result \<Rightarrow> error + ('a, 't) lm_result" where
  "lm_output return_dict1 loss1 logits1 outputs =
     (if \<not> return_dict1
      then (let rest = (case outputs of
                          TupleResult _ items \<Rightarrow> items
                        | DictResult d \<Rightarrow>
                            optional_item PresentsItem (out_past_key_values d) @
                            optional_item HiddenStatesItem (out_hidden_states d) @
                            optional_item AttentionsItem (out_attentions d) @
                            optional_item CrossAttentionsItem (out_cross_attentions d))
            in Inr (LMTuple (optional_item LossItem loss1 @ LogitsItem logits1 # rest)))
      else (case outputs of
              TupleResult _ _ \<Rightarrow> Inl AttributeError
            | DictResult d \<Rightarrow>
                Inr (LMDict \<lparr>loss = loss1, logits = logits1,
                             lm_past_key_values = out_past_key_values d,
                             lm_hidden_states = out_hidden_states d,
                             lm_attentions = out_attentions d\<rparr>)))"

definition causal_lm_forward ::
  "('a::plus, 'img, 't) git_model \<Rightarrow> ('a, 'img, 't) lm_args \<Rightarrow> ('a, 't) lm_result traced" where
  "causal_lm_forward m a =
     (let return_dict1 = resolve (return_dict a) (config_use_return_dict (config m));
          use_cache1 = (case labels a of Some _ \<Rightarrow> Some False | None \<Rightarrow> use_cache a)
      in and_then (forward m (model_args_of a use_cache1 return_dict1)) (\<lambda>outputs.
         (let sequence_output = (case outputs of
                                   TupleResult h _ \<Rightarrow> h
                                 | DictResult d \<Rightarrow> last_hidden_state d)
          in and_then (at_stage LmHead (Inr (lm_head m sequence_output))) (\<lambda>logits1.
             and_then (case labels a of
                         None \<Rightarrow> returns None
                       | Some _ \<Rightarrow>
                          at_stage LossComputation
                            (lm_loss (cross_entropy m) (config_vocab_size (config m))
                               (image_patch_tokens m) logits1 (labels a))) (\<lambda>loss1.
             lifted (lm_output return_dict1 loss1 logits1 outputs))))))"

subsection \<open>A small model\<close>

text \<open>
  A model over the integers with one block, for running the forward functions on concrete
  inputs: its embeddings put every id in a vector of length one, its block hands the hidden
  state on and reports its sequence length as the cache entry, its head doubles the vector
  (the vocabulary has two entries), and its cross entropy returns the sum of the logits and
  the labels it is given.
\<close>

definition example_model :: "(int, nat, nat) git_model" where
  "example_model =
     \<lparr>config = \<lparr>config_output_attentions = False, config_output_hidden_states = False,
                config_use_cache = True, config_use_return_dict = True,
                config_add_cross_attention = False, config_n_layer = 1, config_vocab_size = 2\<rparr>,
      multi_query = True,
      gradient_checkpointing = False,
      training = False,
      image_patch_tokens = 0,
      embeds_dtype = Float32,
      image_encoder = (\<lambda>px. \<lparr>dim0 = 1, dim1 = 1, dim2 = 1, entries = [[[int px]]]\<rparr>),
      visual_projection = (\<lambda>T. T),
      img_temporal_embedding = None,
      wte = (\<lambda>ids. \<lparr>dim0 = nrow ids, dim1 = ncol ids, dim2 = 1,
                     entries = map (map (\<lambda>t. [t])) (cells ids)\<rparr>),
      wpe = (\<lambda>ids. \<lparr>dim0 = nrow ids, dim1 = ncol ids, dim2 = 1,
                     entries = map (map (\<lambda>t. [t])) (cells ids)\<rparr>),
      dropout = (\<lambda>T. T),
      blocks = [\<lambda>h layer_past am hm eh em uc oa.
                  \<lparr>block_hidden = h, block_present = dim1 h, block_attention = 0,
                   block_cross_attention = 0\<rparr>],
      ln_f = (\<lambda>T. T),
      lm_head = (\<lambda>T. T\<lparr>dim2 := 2 * dim2 T, entries := map (map (\<lambda>r. r @ r)) (entries T)\<rparr>),
      get_head_mask = (\<lambda>hm n i. None),
      cross_entropy = (\<lambda>inp tgt. Inr (sum_list (concat inp) + sum_list tgt)),
      cache_length = (\<lambda>kv. kv),
      tensor_dim = (\<lambda>t. 3),
      bool_unsqueeze = (\<lambda>t k. t)\<rparr>"

text \<open>
  Arguments for the wrapper: one sequence of three token ids with labels, and a caller who
  asks for the cache.
\<close>

definition example_args :: "(int, nat, nat) lm_args" where
  "example_args =
     \<lparr>input_ids = Some \<lparr>nrow = 1, ncol = 3, cells = [[5, 6, 7]]\<rparr>,
      past_key_values = None, attention_mask = None, position_ids = None,
      pixel_values = None, inputs_embeds = None, use_cache = Some True,
      output_attentions = None, output_hidden_states = None, return_dict = None,
      labels = Some \<lparr>nrow = 1, ncol = 3, cells = [[1, 0, 1]]\<rparr>\<rparr>"

text \<open>Arguments for a decoding step: one new token id after a cache of length two, no labels.\<close>

definition example_step_args :: "(int, nat, nat) lm_args" where
  "example_step_args =
     \<lparr>input_ids = Some \<lparr>nrow = 1, ncol = 1, cells = [[7]]\<rparr>,
      past_key_values = Some [2], attention_mask = None, position_ids = None,
      pixel_values = None, inputs_embeds = None, use_cache = Some True,
      output_attentions = None, output_hidden_states = None, return_dict = None,
      labels = None\<rparr>"

subsection \<open>Float32 on whole numbers\<close>

text \<open>
  The tensors of the model hold floats, whose sums are rounded. Of the float32 values this
  is the part that the properties below compute with: the whole numbers, below the
  overflow threshold. The sum and the difference of two of them are the exact result
  rounded to a significand of 24 bits, to the nearest value and at a tie to the even
  significand, as torch rounds.
\<close>

fun bit_length :: "nat \<Rightarrow> nat" where
  "bit_length n = (if n = 0 then 0 else Suc (bit_length (n div 2)))"

declare bit_length.simps [simp del]

definition round_float32 :: "int \<Rightarrow> int" where
  "round_float32 x =
     (let a = nat \<bar>x\<bar>; e = bit_length a
      in if e \<le> 24 then x
         else (let ulp = 2 ^ (e - 24); q = a div ulp; r = a mod ulp;
                   q1 = (if ulp < 2 * r then q + 1
                         else if 2 * r < ulp then q
                         else if even q then q else q + 1)
               in sgn x * int (q1 * ulp)))"

datatype f32 = F32 int

instantiation f32 :: "{plus, minus}"
begin

definition plus_f32 :: "f32 \<Rightarrow> f32 \<Rightarrow> f32" where
  "plus_f32 a b = (case (a, b) of (F32 x, F32 y) \<Rightarrow> F32 (round_float32 (x + y)))"

definition minus_f32 :: "f32 \<Rightarrow> f32 \<Rightarrow> f32" where
  "minus_f32 a b = (case (a, b) of (F32 x, F32 y) \<Rightarrow> F32 (round_float32 (x - y)))"

instance ..

end

section \<open>Properties\<close>

subsection \<open>The mask composer, entry by entry\<close>

lemma full_wf: "wf_matrix (full r c v)"
  by (simp add: wf_matrix_def full_def list_all_iff)

lemma wf_row_length: "wf_matrix A \<Longrightarrow> i < nrow A \<Longrightarrow> length (cells A ! i) = ncol A"
  by (simp add: wf_matrix_def list_all_length)

lemma wf_length: "wf_matrix A \<Longrightarrow> length (cells A) = nrow A"
  by (simp add: wf_matrix_def)

lemma full_sel [simp]: "nrow (full r c v) = r" "ncol (full r c v) = c" "cells (full r c v) = replicate r (replicate c v)"
  by (simp_all add: full_def)


lemma create_attention_mask_unfold:
  "create_attention_mask N B M T P pad =
    (let T1 = (if P > 0 then full (nrow T) (nrow T + P) 1 else T) in
     if ncol T1 = N + P \<and> nrow T1 = N then
       (case default_padding_mask B M pad of
          OtherTensor _ \<Rightarrow> Inl PaddingMaskDtypeError
        | BoolTensor pm \<Rightarrow>
           if ncol pm = M \<or> ncol pm = 1 then
             Inr (map (\<lambda>z. [add_memory_update M z \<lparr>nrow = M + N, ncol = M + (N + P), cells = base_cells N M P T1\<rparr>])
                    (map (map (\<lambda>b. if b then - 1 else 0)) (cells pm)))
           else Inl TorchShapeError)
     else Inl TorchShapeError)"
  by (simp add: create_attention_mask_def cat0_def cat1_def Let_def base_cells_def
       del: full_sel(3) split: sum.splits padding_mask.splits option.splits)

lemma base_cells_length: "length (cells T1) = N \<Longrightarrow> length (base_cells N M P T1) = M + N"
  by (simp add: base_cells_def)

lemma base_cells_nth:
  assumes "length (cells T1) = N" "i < M + N"
  shows "base_cells N M P T1 ! i = replicate M 1 @ (if i < M then replicate (N + P) 0 else cells T1 ! (i - M))"
  using assms by (auto simp add: base_cells_def nth_append simp flip: replicate_add)

lemma add_memory_update_row:
  assumes "length z = M"
  shows "map2 (+) (replicate M (1::int)) (broadcast M z) = map (\<lambda>x. 1 + x) z"
  using assms by (simp add: list_eq_iff_nth_eq broadcast_def)

lemma create_attention_mask_rows:
  assumes ok: "create_attention_mask N B M T P pad = Inr m"
    and wfT: "wf_matrix T"
    and pm: "default_padding_mask B M pad = BoolTensor pm" "wf_matrix pm" "ncol pm = M"
    and b: "b < nrow pm" and i: "i < M + N"
  shows "length m = nrow pm"
    and "length (m ! b) = 1"
    and "nrow (m ! b ! 0) = M + N" and "ncol (m ! b ! 0) = M + (N + P)"
    and "length (cells (m ! b ! 0)) = M + N"
    and "cells (m ! b ! 0) ! i =
           map (\<lambda>p. if p then 0 else 1) (cells pm ! b) @
           (if i < M then replicate (N + P) 0
            else if P > 0 then replicate (N + P) 1 else cells T ! (i - M))"
proof -
  define T1 where "T1 = (if P > 0 then full (nrow T) (nrow T + P) 1 else T)"
  have shape: "ncol T1 = N + P" "nrow T1 = N"
    using ok unfolding create_attention_mask_unfold T1_def [symmetric] Let_def
    by (auto split: if_splits)
  have m: "m = map (\<lambda>z. [add_memory_update M z \<lparr>nrow = M + N, ncol = M + (N + P), cells = base_cells N M P T1\<rparr>])
                    (map (map (\<lambda>b. if b then - 1 else 0)) (cells pm))"
    using ok pm unfolding create_attention_mask_unfold T1_def [symmetric] Let_def default_padding_mask_def
    by (auto split: if_splits)
  have lenT1: "length (cells T1) = N"
    using shape wfT by (auto simp: T1_def wf_matrix_def split: if_splits)
  have lb: "b < length (cells pm)" using b pm(2) by (simp add: wf_matrix_def)
  have lrow: "length (cells pm ! b) = M" using wf_row_length [OF pm(2) b] pm(3) by simp
  show "length m = nrow pm" using pm(2) by (simp add: m wf_matrix_def)
  show "length (m ! b) = 1" using lb by (simp add: m)
  show "nrow (m ! b ! 0) = M + N" using lb by (simp add: m add_memory_update_def)
  show "ncol (m ! b ! 0) = M + (N + P)" using lb by (simp add: m add_memory_update_def)
  show "length (cells (m ! b ! 0)) = M + N"
    using lb lenT1 by (simp add: m add_memory_update_def base_cells_length)
  have T1i: "\<not> i < M \<Longrightarrow> cells T1 ! (i - M) = (if P > 0 then replicate (N + P) 1 else cells T ! (i - M))"
    using i shape by (auto simp: T1_def)
  have "cells (m ! b ! 0) ! i =
        map (\<lambda>x. 1 + x) (map (\<lambda>b. if b then - 1 else 0) (cells pm ! b)) @
          (if i < M then replicate (N + P) 0 else cells T1 ! (i - M))"
    using lb i lenT1 lrow
    by (simp add: m add_memory_update_def base_cells_length base_cells_nth [OF lenT1 i] add_memory_update_row
          del: map_map)
  also have "map (\<lambda>x. 1 + x) (map (\<lambda>b. if b then - 1 else 0) (cells pm ! b)) = map (\<lambda>p. if p then 0 else (1::int)) (cells pm ! b)"
    by simp
  finally show "cells (m ! b ! 0) ! i =
           map (\<lambda>p. if p then 0 else 1) (cells pm ! b) @
           (if i < M then replicate (N + P) 0
            else if P > 0 then replicate (N + P) 1 else cells T ! (i - M))"
    using T1i by simp
qed

lemma create_attention_mask_length:
  assumes "create_attention_mask N B M T P pad = Inr m"
    and "default_padding_mask B M pad = BoolTensor pm" "wf_matrix pm"
  shows "length m = nrow pm"
  using assms unfolding create_attention_mask_unfold Let_def
  by (auto simp: wf_matrix_def split: if_splits)

lemma tril_sel [simp]: "nrow (tril A) = nrow A" "ncol (tril A) = ncol A"
  by (simp_all add: tril_def)

lemma generate_future_mask_sel [simp]:
  "nrow (generate_future_mask n) = n" "ncol (generate_future_mask n) = n"
  "length (cells (generate_future_mask n)) = n"
  by (simp_all add: generate_future_mask_def tril_def)

lemma generate_future_mask_row:
  "i < n \<Longrightarrow> cells (generate_future_mask n) ! i = map (\<lambda>j. if j \<le> i then 1 else 0) [0..<n]"
  by (simp add: generate_future_mask_def tril_def nth_enumerate_eq list_eq_iff_nth_eq)

lemma generate_future_mask_wf: "wf_matrix (generate_future_mask n)"
  by (simp add: wf_matrix_def list_all_length generate_future_mask_row)

lemma generate_future_mask_entry:
  "i < n \<Longrightarrow> j < n \<Longrightarrow> cells (generate_future_mask n) ! i ! j = (if j \<le> i then 1 else 0)"
  by (simp add: generate_future_mask_row)

lemma create_attention_mask_returns:
  assumes "nrow T = N" "P = 0 \<Longrightarrow> ncol T = N"
    and "default_padding_mask B M pad = BoolTensor pm" "ncol pm = M"
  shows "\<exists>m. create_attention_mask N B M T P pad = Inr m"
  using assms unfolding create_attention_mask_unfold default_padding_mask_def Let_def
  by (auto split: option.splits)

lemma default_padding_mask_None: "default_padding_mask B M None = BoolTensor (full B M False)"
  by (simp add: default_padding_mask_def)

lemma map2_append_nil: "length xs = n \<Longrightarrow> map2 (@) (replicate n []) xs = xs"
  by (simp add: list_eq_iff_nth_eq)

lemma create_attention_mask_no_memory:
  "create_attention_mask N B 0 (generate_future_mask N) 0 None
     = Inr (replicate B [generate_future_mask N])"
  unfolding create_attention_mask_unfold Let_def
  by (simp add: default_padding_mask_None base_cells_def map2_append_nil add_memory_update_def
        broadcast_def map_replicate_const)

lemma to_bool_entry:
  "i < length (cells A) \<Longrightarrow> j < length (cells A ! i) \<Longrightarrow> cells (to_bool A) ! i ! j = (cells A ! i ! j \<noteq> 0)"
  by (simp add: to_bool_def)

lemma mask_entry_to_bool:
  assumes "b < length cam" "length (cam ! b) = 1" "i < length (cells (cam ! b ! 0))"
    "j < length (cells (cam ! b ! 0) ! i)"
  shows "mask_entry (map (map to_bool) cam) b i j = (mask_entry cam b i j \<noteq> 0)"
proof -
  have "0 < length (cam ! b)" using assms(2) by simp
  then show ?thesis using assms by (simp add: mask_entry_def to_bool_entry)
qed

lemma combined_attention_mask_past:
  "0 < P \<Longrightarrow> combined_attention_mask dt B M N P am =
     (case create_attention_mask N B M (generate_future_mask N) P None of
        Inl e \<Rightarrow> Inl e | Inr cam \<Rightarrow> Inr (map (map to_bool) cam))"
  by (simp add: combined_attention_mask_def Let_def split: sum.splits option.splits)

lemma combined_attention_mask_no_user_mask:
  "combined_attention_mask dt B M N P None =
     (case create_attention_mask N B M (generate_future_mask N) P None of
        Inl e \<Rightarrow> Inl e | Inr cam \<Rightarrow> Inr (map (map to_bool) cam))"
  by (simp add: combined_attention_mask_def Let_def split: sum.splits option.splits)

text \<open>
  Claim C2. When the past length is positive, the forward pass builds its mask without an
  error for every user attention mask, absent or supplied, and in every batch row the block
  of the text rows against the cached and the text columns is true everywhere.
\<close>

theorem past_block_all_true:
  assumes "0 < past_length"
  shows "\<exists>m. combined_attention_mask dt bsz num_memory query_length past_length user_mask = Inr m \<and>
             length m = bsz \<and>
             (\<forall>b i j. b < bsz \<and> i < query_length \<and> j < past_length + query_length \<longrightarrow>
                mask_entry m b (num_memory + i) (num_memory + j))"
proof -
  let ?pm = "full bsz num_memory False"
  have pad: "default_padding_mask bsz num_memory None = BoolTensor ?pm"
    by (rule default_padding_mask_None)
  obtain cam where cam:
    "create_attention_mask query_length bsz num_memory (generate_future_mask query_length) past_length None = Inr cam"
    using create_attention_mask_returns [OF _ _ pad, of "generate_future_mask query_length" query_length past_length]
    by auto
  note rows = create_attention_mask_rows [OF cam generate_future_mask_wf pad full_wf]
  have len: "length cam = bsz"
    using create_attention_mask_length [OF cam pad full_wf] by simp
  have entry: "mask_entry (map (map to_bool) cam) b (num_memory + i) (num_memory + j)"
    if "b < bsz" "i < query_length" "j < past_length + query_length" for b i j
  proof -
    have b: "b < nrow ?pm" using that by simp
    have i: "num_memory + i < num_memory + query_length" using that by simp
    have row: "cells (cam ! b ! 0) ! (num_memory + i) =
                 replicate num_memory 1 @ replicate (query_length + past_length) 1"
      using rows(6) [OF _ b i] assms that by (simp add: map_replicate_const)
    have "mask_entry cam b (num_memory + i) (num_memory + j) = 1"
      using that by (simp add: mask_entry_def row nth_append)
    moreover have "mask_entry (map (map to_bool) cam) b (num_memory + i) (num_memory + j)
          = (mask_entry cam b (num_memory + i) (num_memory + j) \<noteq> 0)"
      using that len rows(2) [OF _ b i] rows(5) [OF _ b i]
      by (intro mask_entry_to_bool) (simp_all add: row)
    ultimately show ?thesis by simp
  qed
  show ?thesis
    using cam len entry assms by (simp add: combined_attention_mask_past)
qed


theorem past_block_all_true_witness:
  "(0::nat) < 2 \<and>
   (\<exists>m. combined_attention_mask Float32 1 1 1 2 (Some \<lparr>nrow = 1, ncol = 1, cells = [[0]]\<rparr>) = Inr m \<and>
        length m = 1 \<and> mask_entry m 0 1 1 \<and> mask_entry m 0 1 2 \<and> mask_entry m 0 1 3)"
proof -
  have h: "(0::nat) < 2" by simp
  from past_block_all_true [OF h, of Float32 1 1 1 "Some \<lparr>nrow = 1, ncol = 1, cells = [[0]]\<rparr>"]
  obtain m where m:
      "combined_attention_mask Float32 1 1 1 2 (Some \<lparr>nrow = 1, ncol = 1, cells = [[0]]\<rparr>) = Inr m"
      "length m = 1"
    and block: "\<forall>b i j. b < 1 \<and> i < 1 \<and> j < 2 + 1 \<longrightarrow> mask_entry m b (1 + i) (1 + j)"
    by blast
  have e1: "mask_entry m 0 1 1" using block [rule_format, of 0 0 0] by simp
  have e2: "mask_entry m 0 1 2" using block [rule_format, of 0 0 1] by (simp add: eval_nat_numeral)
  have e3: "mask_entry m 0 1 3" using block [rule_format, of 0 0 2] by (simp add: eval_nat_numeral)
  show ?thesis using h m e1 e2 e3 by blast
qed

text \<open>
  Claim C3. In the mask the composer returns, read as booleans, for a batch row \<open>b\<close>: when no
  visual position of the row is marked padded, the block of the visual rows against the
  visual columns is true everywhere; and the column of a visual position that is marked
  padded is false in every row, visual and text alike.
\<close>

theorem padded_visual_columns:
  assumes "create_attention_mask num_tgt memory_bsz num_memory tgt_mask past_key_values_length
             memory_key_padding_mask = Inr cam"
    and "wf_matrix tgt_mask"
    and "default_padding_mask memory_bsz num_memory memory_key_padding_mask = BoolTensor pm"
    and "wf_matrix pm" and "ncol pm = num_memory"
    and "b < nrow pm"
  shows "((\<forall>j < num_memory. \<not> cells pm ! b ! j) \<longrightarrow>
           (\<forall>i < num_memory. \<forall>j < num_memory. mask_entry (map (map to_bool) cam) b i j)) \<and>
         (\<forall>j < num_memory. cells pm ! b ! j \<longrightarrow>
           (\<forall>i < num_memory + num_tgt. \<not> mask_entry (map (map to_bool) cam) b i j))"
proof -
  note rows = create_attention_mask_rows [OF assms(1-5)]
  have len: "length cam = nrow pm"
    by (rule create_attention_mask_length [OF assms(1,3,4)])
  have lrow: "length (cells pm ! b) = num_memory"
    using wf_row_length [OF assms(4,6)] assms(5) by simp
  have entry: "mask_entry (map (map to_bool) cam) b i j = (\<not> cells pm ! b ! j)"
    if i: "i < num_memory + num_tgt" and j: "j < num_memory" for i j
  proof -
    have raw: "mask_entry cam b i j = (if cells pm ! b ! j then 0 else 1)"
      using j lrow by (simp add: mask_entry_def rows(6) [OF assms(6) i] nth_append)
    have "mask_entry (map (map to_bool) cam) b i j = (mask_entry cam b i j \<noteq> 0)"
      using assms(6) len rows(2) [OF assms(6) i] rows(5) [OF assms(6) i] i j lrow
      by (intro mask_entry_to_bool) (simp_all add: rows(6) [OF assms(6) i])
    then show ?thesis by (simp add: raw)
  qed
  show ?thesis using entry by simp
qed

text \<open>
  Claim C4. With no visual token and no past, the composer returns, for every batch row, the
  lower-triangular mask of \<^verbatim>\<open>_generate_future_mask\<close> unchanged, and the forward pass (with
  no user attention mask) its boolean form.
\<close>

theorem no_memory_is_causal_mask:
  "create_attention_mask query_length bsz 0 (generate_future_mask query_length) 0 None
     = Inr (replicate bsz [generate_future_mask query_length]) \<and>
   combined_attention_mask dt bsz 0 query_length 0 None
     = Inr (replicate bsz [to_bool (generate_future_mask query_length)])"
  by (simp add: create_attention_mask_no_memory combined_attention_mask_no_user_mask)

text \<open>
  Claim C1. With no past, the forward pass combines the causal block of the text rows and
  columns with the user mask after \<^verbatim>\<open>_expand_mask\<close> and \<^verbatim>\<open>.bool()\<close>, which is true where the
  user mask is not 1. A user mask that marks both of two text positions valid therefore
  leaves no entry of the block true, where the claim expects the causal mask.
\<close>

theorem valid_user_mask_blanks_text_block: "combined_attention_mask Float32 1 0 2 0 (Some \<lparr>nrow = 1, ncol = 2, cells = [[1, 1]]\<rparr>)
   = Inr [[\<lparr>nrow = 2, ncol = 2, cells = [[False, False], [False, False]]\<rparr>]]"
  by code_simp


theorem padded_visual_columns_witness:
  "create_attention_mask 1 2 2 (generate_future_mask 1) 0
     (Some (BoolTensor \<lparr>nrow = 2, ncol = 2, cells = [[False, True], [False, False]]\<rparr>))
     = Inr [[\<lparr>nrow = 3, ncol = 3, cells = [[1, 0, 0], [1, 0, 0], [1, 0, 1]]\<rparr>],
            [\<lparr>nrow = 3, ncol = 3, cells = [[1, 1, 0], [1, 1, 0], [1, 1, 1]]\<rparr>]] \<and>
   wf_matrix (generate_future_mask 1) \<and>
   default_padding_mask 2 2
     (Some (BoolTensor \<lparr>nrow = 2, ncol = 2, cells = [[False, True], [False, False]]\<rparr>))
     = BoolTensor \<lparr>nrow = 2, ncol = 2, cells = [[False, True], [False, False]]\<rparr> \<and>
   wf_matrix \<lparr>nrow = 2, ncol = 2, cells = [[False, True], [False, False]]\<rparr> \<and>
   mask_entry (map (map to_bool)
     [[\<lparr>nrow = 3, ncol = 3, cells = [[1, 0, 0], [1, 0, 0], [1, 0, 1]]\<rparr>],
      [\<lparr>nrow = 3, ncol = 3, cells = [[1, 1, 0], [1, 1, 0], [1, 1, 1]]\<rparr>]]) 1 1 1 \<and>
   \<not> mask_entry (map (map to_bool)
     [[\<lparr>nrow = 3, ncol = 3, cells = [[1, 0, 0], [1, 0, 0], [1, 0, 1]]\<rparr>],
      [\<lparr>nrow = 3, ncol = 3, cells = [[1, 1, 0], [1, 1, 0], [1, 1, 1]]\<rparr>]]) 0 2 1"
proof -
  let ?pm = "\<lparr>nrow = 2, ncol = 2, cells = [[False, True], [False, False]]\<rparr>"
  let ?cam = "[[\<lparr>nrow = 3, ncol = 3, cells = [[1, 0, 0], [1, 0, 0], [1, 0, (1::int)]]\<rparr>],
               [\<lparr>nrow = 3, ncol = 3, cells = [[1, 1, 0], [1, 1, 0], [1, 1, 1]]\<rparr>]]"
  have c: "create_attention_mask 1 2 2 (generate_future_mask 1) 0 (Some (BoolTensor ?pm)) = Inr ?cam"
    by code_simp
  have w: "wf_matrix (generate_future_mask 1)" by (rule generate_future_mask_wf)
  have d: "default_padding_mask 2 2 (Some (BoolTensor ?pm)) = BoolTensor ?pm"
    by (simp add: default_padding_mask_def)
  have wp: "wf_matrix ?pm" by (simp add: wf_matrix_def)
  have n: "ncol ?pm = 2" by simp
  have b0: "0 < nrow ?pm" and b1: "1 < nrow ?pm" by simp_all
  have clean: "\<forall>j<2. \<not> cells ?pm ! 1 ! j" by (simp add: less_2_cases_iff)
  have padded: "cells ?pm ! 0 ! 1" by simp
  have "mask_entry (map (map to_bool) ?cam) 1 1 1"
    using padded_visual_columns [OF c w d wp n b1] clean by simp
  moreover have "\<not> mask_entry (map (map to_bool) ?cam) 0 2 1"
    using padded_visual_columns [OF c w d wp n b0] padded by simp
  ultimately show ?thesis using c w d wp by blast
qed

theorem no_memory_is_causal_mask_witness:
  "create_attention_mask 2 1 0 (generate_future_mask 2) 0 None
     = Inr [[\<lparr>nrow = 2, ncol = 2, cells = [[1, 0], [1, 1]]\<rparr>]] \<and>
   combined_attention_mask Float32 1 0 2 0 None
     = Inr [[\<lparr>nrow = 2, ncol = 2, cells = [[True, False], [True, True]]\<rparr>]]"
proof -
  have g: "generate_future_mask 2 = \<lparr>nrow = 2, ncol = 2, cells = [[1, 0], [1, 1]]\<rparr>"
    by code_simp
  have r: "replicate 1 x = [x]" for x :: "'a" by simp
  show ?thesis
    using no_memory_is_causal_mask [of 2 1 Float32] by (simp add: g r to_bool_def)
qed

subsection \<open>The loss\<close>

lemma chunks_concat:
  "list_all (\<lambda>x. length x = k) xs \<Longrightarrow> chunks (length xs) k (concat xs) = xs"
  by (induction xs) simp_all

lemma length_concat_uniform:
  "list_all (\<lambda>x. length x = k) xs \<Longrightarrow> length (concat xs) = length xs * k"
  by (induction xs) simp_all

lemma view_rows_concat:
  assumes "0 < k" "list_all (\<lambda>x. length x = k) xs"
  shows "view_rows k (concat xs) = Inr xs"
  using assms by (simp add: view_rows_def length_concat_uniform chunks_concat)

text \<open>
  Claim C5. With a batch of one, \<^verbatim>\<open>image_patch_tokens\<close> = 3 and logits at eight positions
  for five labels, the loss is \<^verbatim>\<open>CrossEntropyLoss\<close> of the logits at the positions 3 to 6
  and the labels 1 to 4, so the logits at position 7 and the label 0 never reach it; and
  without labels the loss is None.
\<close>

theorem loss_positions:
  assumes "0 < vocab_size"
    and "wf_tensor3 \<lparr>dim0 = 1, dim1 = 8, dim2 = vocab_size,
                      entries = [[l0, l1, l2, l3, l4, l5, l6, l7]]\<rparr>"
  shows "lm_loss ce vocab_size 3
           \<lparr>dim0 = 1, dim1 = 8, dim2 = vocab_size, entries = [[l0, l1, l2, l3, l4, l5, l6, l7]]\<rparr>
           (Some \<lparr>nrow = 1, ncol = 5, cells = [[t0, t1, t2, t3, t4]]\<rparr>)
         = (case ce [l3, l4, l5, l6] [t1, t2, t3, t4] of Inl e \<Rightarrow> Inl e | Inr l \<Rightarrow> Inr (Some l)) \<and>
         lm_loss ce vocab_size num_image_tokens any_logits None = Inr None"
proof -
  have lens: "list_all (\<lambda>x. length x = vocab_size) [l3, l4, l5, l6]"
    using assms(2) by (simp add: wf_tensor3_def)
  have "concat [l3, l4, l5, l6] = l3 @ l4 @ l5 @ l6" by simp
  with view_rows_concat [OF assms(1) lens]
  have v: "view_rows vocab_size (l3 @ l4 @ l5 @ l6) = Inr [l3, l4, l5, l6]" by simp
  have d: "drop 3 [l0, l1, l2, l3, l4, l5, l6] = [l3, l4, l5, l6]"
    by (simp add: eval_nat_numeral)
  show ?thesis by (simp add: lm_loss_def d v)
qed


theorem loss_positions_witness:
  "(0::nat) < 2 \<and>
   wf_tensor3 \<lparr>dim0 = 1, dim1 = 8, dim2 = 2,
     entries = [[[0, 1], [2, 3], [4, 5], [6, 7], [8, 9], [10, 11], [12, 13], [14, 15 :: int]]]\<rparr> \<and>
   lm_loss (\<lambda>inp tgt. Inr (inp, tgt)) 2 3
     \<lparr>dim0 = 1, dim1 = 8, dim2 = 2,
       entries = [[[0, 1], [2, 3], [4, 5], [6, 7], [8, 9], [10, 11], [12, 13], [14, 15 :: int]]]\<rparr>
     (Some \<lparr>nrow = 1, ncol = 5, cells = [[100, 101, 102, 103, 104]]\<rparr>)
   = Inr (Some ([[6, 7], [8, 9], [10, 11], [12, 13]], [101, 102, 103, 104]))"
proof -
  let ?L = "\<lparr>dim0 = 1, dim1 = 8, dim2 = 2,
     entries = [[[0, 1], [2, 3], [4, 5], [6, 7], [8, 9], [10, 11], [12, 13], [14, 15 :: int]]]\<rparr>"
  have h: "(0::nat) < 2" by simp
  have w: "wf_tensor3 ?L" by (simp add: wf_tensor3_def)
  show ?thesis
    using h w loss_positions [OF h w, of "\<lambda>inp tgt. Inr (inp, tgt)" 100 101 102 103 104]
    by simp
qed

subsection \<open>The temporal embedder\<close>

lemma add_temporal_embedding_ok:
  "length emb = dim2 F \<Longrightarrow> add_temporal_embedding F emb = Inr (shifted F emb)"
  by (simp add: add_temporal_embedding_def shifted_def broadcast_def)

lemma embed_frames_ok:
  assumes "k + length frames \<le> length embs"
    and "list_all (\<lambda>px. dim2 (enc px) = H) frames"
    and "list_all (\<lambda>e. length e = H) embs"
  shows "embed_frames enc (Some embs) k frames =
           Inr (map (\<lambda>(i, px). shifted (enc px) (embs ! i)) (enumerate k frames))"
  using assms
proof (induction frames arbitrary: k)
  case Nil
  then show ?case by simp
next
  case (Cons px rest)
  have k: "k < length embs" using Cons.prems(1) by simp
  have "length (embs ! k) = H" using Cons.prems(3) k by (simp add: list_all_length)
  then have a: "add_temporal_embedding (enc px) (embs ! k) = Inr (shifted (enc px) (embs ! k))"
    using Cons.prems(2) by (simp add: add_temporal_embedding_ok)
  have r: "embed_frames enc (Some embs) (Suc k) rest =
           Inr (map (\<lambda>(i, px). shifted (enc px) (embs ! i)) (enumerate (Suc k) rest))"
    using Cons.prems by (intro Cons.IH) simp_all
  show ?case using k by (simp add: a r)
qed

lemma cat_dim1_uniform:
  assumes "Fs \<noteq> []"
    and "list_all (\<lambda>F. wf_tensor3 F \<and> dim0 F = B \<and> dim1 F = P \<and> dim2 F = H) Fs"
  shows "\<exists>R. cat_dim1 Fs = Inr R \<and> dim0 R = B \<and> dim1 R = P * length Fs \<and> dim2 R = H \<and>
             length (entries R) = B \<and>
             (\<forall>b < B. entries R ! b = concat (map (\<lambda>F. entries F ! b) Fs))"
  using assms
proof (induction Fs rule: cat_dim1.induct)
  case 1
  then show ?case by simp
next
  case (2 T)
  then show ?case by (simp add: wf_tensor3_def)
next
  case (3 T U rest)
  from 3 obtain R where R: "cat_dim1 (U # rest) = Inr R" "dim0 R = B" "dim1 R = P * length (U # rest)"
      "dim2 R = H" "length (entries R) = B"
      "\<forall>b < B. entries R ! b = concat (map (\<lambda>F. entries F ! b) (U # rest))"
    by auto
  have T: "wf_tensor3 T" "dim0 T = B" "dim1 T = P" "dim2 T = H" using 3(3) by simp_all
  have lT: "length (entries T) = B" using T by (simp add: wf_tensor3_def)
  show ?case
    using R T lT by (simp add: nth_append)
qed


lemma nth_concat_uniform:
  "list_all (\<lambda>x. length x = P) xss \<Longrightarrow> f < length xss \<Longrightarrow> p < P \<Longrightarrow>
     concat xss ! (f * P + p) = xss ! f ! p"
proof (induction xss arbitrary: f)
  case Nil
  then show ?case by simp
next
  case (Cons x xs)
  show ?case
  proof (cases f)
    case 0
    then show ?thesis using Cons.prems by (simp add: nth_append)
  next
    case (Suc g)
    then show ?thesis using Cons.prems Cons.IH [of g] by (simp add: nth_append)
  qed
qed

lemma shifted_sel [simp]:
  "dim0 (shifted F e) = dim0 F" "dim1 (shifted F e) = dim1 F" "dim2 (shifted F e) = dim2 F"
  by (simp_all add: shifted_def)

lemma shifted_wf: "wf_tensor3 F \<Longrightarrow> length e = dim2 F \<Longrightarrow> wf_tensor3 (shifted F e)"
  by (simp add: wf_tensor3_def shifted_def list_all_iff)

lemma shifted_entry:
  assumes "wf_tensor3 F" "length e = dim2 F" "b < dim0 F" "p < dim1 F" "h < dim2 F"
  shows "entries (shifted F e) ! b ! p ! h = entries F ! b ! p ! h + e ! h"
proof -
  have lb: "b < length (entries F)" using assms by (simp add: wf_tensor3_def)
  have lp: "length (entries F ! b) = dim1 F"
    using assms lb by (simp add: wf_tensor3_def list_all_length)
  have lh: "length (entries F ! b ! p) = dim2 F"
    using assms lb lp by (simp add: wf_tensor3_def list_all_length)
  show ?thesis using assms lb lp lh by (simp add: shifted_def)
qed

lemma temporal_embedder_entries:
  fixes enc :: "'img \<Rightarrow> 'a::plus tensor3"
  assumes "frames \<noteq> []"
    and "list_all (\<lambda>px. wf_tensor3 (enc px) \<and> dim0 (enc px) = B \<and> dim1 (enc px) = P \<and> dim2 (enc px) = H)
           frames"
    and "length embs = length frames"
    and "list_all (\<lambda>e. length e = H) embs"
  shows "\<exists>R. temporal_embedder enc (Some embs) frames = Inr R \<and>
             dim0 R = B \<and> dim1 R = P * length frames \<and> dim2 R = H \<and>
             (\<forall>f b p h. f < length frames \<and> b < B \<and> p < P \<and> h < H \<longrightarrow>
                entries R ! b ! (f * P + p) ! h
                  = entries (enc (frames ! f)) ! b ! p ! h + embs ! f ! h)"
proof -
  let ?Fs = "map (\<lambda>(i, px). shifted (enc px) (embs ! i)) (enumerate 0 frames)"
  have dims: "list_all (\<lambda>px. dim2 (enc px) = H) frames"
    using assms(2) by (simp add: list_all_iff)
  have emb: "embed_frames enc (Some embs) 0 frames = Inr ?Fs"
    using assms(3) by (intro embed_frames_ok [OF _ dims assms(4)]) simp
  have nth_Fs: "?Fs ! f = shifted (enc (frames ! f)) (embs ! f)" if "f < length frames" for f
    using that by (simp add: nth_enumerate_eq)
  have frame: "wf_tensor3 (enc (frames ! f))" "dim0 (enc (frames ! f)) = B"
      "dim1 (enc (frames ! f)) = P" "dim2 (enc (frames ! f)) = H" "length (embs ! f) = H"
    if "f < length frames" for f
    using that assms(2,3,4) by (simp_all add: list_all_length)
  have uniform: "list_all (\<lambda>F. wf_tensor3 F \<and> dim0 F = B \<and> dim1 F = P \<and> dim2 F = H) ?Fs"
    unfolding list_all_length
  proof (intro allI impI)
    fix n assume "n < length ?Fs"
    then have n: "n < length frames" by simp
    show "wf_tensor3 (?Fs ! n) \<and> dim0 (?Fs ! n) = B \<and> dim1 (?Fs ! n) = P \<and> dim2 (?Fs ! n) = H"
      unfolding nth_Fs [OF n] using frame [OF n] by (simp add: shifted_wf)
  qed
  have "length ?Fs = length frames" by simp
  then have ne: "?Fs \<noteq> []" using assms(1) by (metis length_0_conv)
  from cat_dim1_uniform [OF ne uniform] obtain R where R:
      "cat_dim1 ?Fs = Inr R" "dim0 R = B" "dim1 R = P * length ?Fs" "dim2 R = H"
      "\<forall>b < B. entries R ! b = concat (map (\<lambda>F. entries F ! b) ?Fs)"
    by blast
  have entry: "entries R ! b ! (f * P + p) ! h
                 = entries (enc (frames ! f)) ! b ! p ! h + embs ! f ! h"
    if "f < length frames" "b < B" "p < P" "h < H" for f b p h
  proof -
    let ?xss = "map (\<lambda>F. entries F ! b) ?Fs"
    have len: "list_all (\<lambda>x. length x = P) ?xss"
    proof -
      have "length (entries (?Fs ! g) ! b) = P" if "g < length frames" for g
      proof -
        have "wf_tensor3 (?Fs ! g)" "dim0 (?Fs ! g) = B" "dim1 (?Fs ! g) = P"
          using uniform that by (simp_all add: list_all_length)
        then show ?thesis using \<open>b < B\<close> by (simp add: wf_tensor3_def list_all_length)
      qed
      then show ?thesis by (simp add: list_all_length)
    qed
    have "entries R ! b ! (f * P + p) = ?xss ! f ! p"
      using R(5) that nth_concat_uniform [OF len, of f p] by simp
    also have "?xss ! f = entries (shifted (enc (frames ! f)) (embs ! f)) ! b"
      using that by (simp add: nth_enumerate_eq)
    finally show ?thesis
      using that frame [OF that(1)] by (simp add: shifted_entry)
  qed
  show ?thesis
    using emb R entry by (simp add: temporal_embedder_def)
qed

lemma temporal_embedder_no_frames: "temporal_embedder enc temb [] = Inl EmptyCatError"
  by (simp add: temporal_embedder_def)

text \<open>
  Claim C6, as the code has it. For at least one frame, each encoded to a tensor of shape
  [B, P, H], and as many embedding vectors of length H as there are frames, the temporal
  embedder returns a tensor of shape [B, P * frames, H] in which the positions \<open>f * P\<close> to
  \<open>f * P + P - 1\<close> hold the features of frame \<open>f\<close> with its embedding added to every
  position, element by element, in the addition of the element type. So two frames of four
  patches give eight positions, and of two frames with the same features the outputs are
  those features plus the one embedding and plus the other. Their difference is the
  difference of the embeddings where the addition is exact (\<open>temporal_offset_delta\<close>), and
  need not be in floats.
\<close>

theorem temporal_embedder_frames:
  fixes enc :: "'img \<Rightarrow> 'a::plus tensor3"
  assumes "frames \<noteq> []"
    and "list_all (\<lambda>px. wf_tensor3 (enc px) \<and> dim0 (enc px) = B \<and> dim1 (enc px) = P \<and> dim2 (enc px) = H)
           frames"
    and "length embs = length frames"
    and "list_all (\<lambda>e. length e = H) embs"
  shows "\<exists>R. temporal_embedder enc (Some embs) frames = Inr R \<and>
             dim0 R = B \<and> dim1 R = P * length frames \<and> dim2 R = H \<and>
             (\<forall>f b p h. f < length frames \<and> b < B \<and> p < P \<and> h < H \<longrightarrow>
                entries R ! b ! (f * P + p) ! h
                  = entries (enc (frames ! f)) ! b ! p ! h + embs ! f ! h)"
  using assms by (rule temporal_embedder_entries)

theorem temporal_embedder_frames_witness:
  "[0, 1 :: nat] \<noteq> [] \<and>
   length [[10], [30 :: int]] = length [0, 1 :: nat] \<and>
   (\<exists>R. temporal_embedder
          (\<lambda>px. \<lparr>dim0 = 1, dim1 = 4, dim2 = 1, entries = [[[1], [2], [3], [4 :: int]]]\<rparr>)
          (Some [[10], [30]]) [0, 1 :: nat] = Inr R \<and>
        dim1 R = 8 \<and>
        entries R ! 0 ! 2 ! 0 = 13 \<and> entries R ! 0 ! 6 ! 0 = 33 \<and>
        entries R ! 0 ! 6 ! 0 - entries R ! 0 ! 2 ! 0 = 30 - 10)"
proof -
  let ?enc = "\<lambda>px :: nat. \<lparr>dim0 = 1, dim1 = 4, dim2 = 1, entries = [[[1], [2], [3], [4 :: int]]]\<rparr>"
  have ne: "[0, 1 :: nat] \<noteq> []" by simp
  have wf: "list_all (\<lambda>px. wf_tensor3 (?enc px) \<and> dim0 (?enc px) = 1 \<and> dim1 (?enc px) = 4 \<and>
              dim2 (?enc px) = 1) [0, 1]"
    by (simp add: wf_tensor3_def)
  have len: "length [[10], [30 :: int]] = length [0, 1 :: nat]" by simp
  have embs: "list_all (\<lambda>e. length e = 1) [[10], [30 :: int]]" by simp
  from temporal_embedder_frames [OF ne wf len embs] obtain R where R:
      "temporal_embedder ?enc (Some [[10], [30]]) [0, 1] = Inr R"
      "dim1 R = 4 * length [0, 1 :: nat]"
    and entry: "\<forall>f b p h. f < length [0, 1 :: nat] \<and> b < 1 \<and> p < 4 \<and> h < 1 \<longrightarrow>
        entries R ! b ! (f * 4 + p) ! h
          = entries (?enc ([0, 1] ! f)) ! b ! p ! h + [[10], [30]] ! f ! h"
    by blast
  have e0: "entries R ! 0 ! 2 ! 0 = 13" using entry [rule_format, of 0 0 2 0] by (simp add: eval_nat_numeral)
  have e1: "entries R ! 0 ! 6 ! 0 = 33" using entry [rule_format, of 1 0 2 0] by (simp add: eval_nat_numeral)
  have d: "dim1 R = 8" using R(2) by simp
  have "entries R ! 0 ! 6 ! 0 - entries R ! 0 ! 2 ! 0 = 30 - 10" by (simp add: e0 e1)
  then show ?thesis using ne len R(1) d e0 e1 by blast
qed

text \<open>
  Where the elements form a group, the outputs of the first two frames differ by exactly
  the difference of their embeddings when the encoder gives both frames the same features.
\<close>

lemma temporal_offset_delta:
  fixes enc :: "'img \<Rightarrow> 'a::ab_group_add tensor3"
  assumes "1 < length frames"
    and "list_all (\<lambda>px. wf_tensor3 (enc px) \<and> dim0 (enc px) = B \<and> dim1 (enc px) = P \<and> dim2 (enc px) = H)
           frames"
    and "length embs = length frames"
    and "list_all (\<lambda>e. length e = H) embs"
    and "enc (frames ! 0) = enc (frames ! 1)"
    and "temporal_embedder enc (Some embs) frames = Inr R"
    and "b < B" "p < P" "h < H"
  shows "entries R ! b ! (P + p) ! h - entries R ! b ! p ! h = embs ! 1 ! h - embs ! 0 ! h"
proof -
  have ne: "frames \<noteq> []" using assms(1) by auto
  from temporal_embedder_entries [OF ne assms(2,3,4)] assms(6)
  have entry: "\<forall>f b p h. f < length frames \<and> b < B \<and> p < P \<and> h < H \<longrightarrow>
                entries R ! b ! (f * P + p) ! h
                  = entries (enc (frames ! f)) ! b ! p ! h + embs ! f ! h"
    by auto
  have "entries R ! b ! (1 * P + p) ! h = entries (enc (frames ! 1)) ! b ! p ! h + embs ! 1 ! h"
    using entry assms(1,7,8,9) by blast
  moreover have "entries R ! b ! (0 * P + p) ! h = entries (enc (frames ! 0)) ! b ! p ! h + embs ! 0 ! h"
    using entry assms(1,7,8,9) by (metis less_trans zero_less_one)
  ultimately show ?thesis using assms(5) by simp
qed

lemma bit_length_examples:
  "bit_length 0 = 0" "bit_length (Suc 0) = 1"
  "bit_length 16777216 = 25" "bit_length 16777217 = 25"
  by (simp_all add: bit_length.simps)

lemma round_float32_examples:
  "round_float32 0 = 0" "round_float32 1 = 1"
  "round_float32 16777216 = 16777216" "round_float32 16777217 = 16777216"
  by (simp_all add: round_float32_def Let_def bit_length_examples)

lemma f32_sums:
  "F32 16777216 + F32 0 = F32 16777216" "F32 16777216 + F32 1 = F32 16777216"
  "F32 16777216 - F32 16777216 = F32 0" "F32 1 - F32 0 = F32 1"
  by (simp_all add: plus_f32_def minus_f32_def round_float32_examples)

text \<open>
  Claim C6, as the spec states it, fails twice. With no frame there is no output: \<^verbatim>\<open>torch.cat\<close>
  raises on the empty list. And in float32 two frames with the same features need not
  differ by the difference of their embeddings: with the feature 16777216 and the
  embeddings 0 and 1 both sums are 16777216, so the outputs differ by 0 and the embeddings
  by 1.
\<close>

theorem temporal_embedder_float_delta_counterexample:
  "temporal_embedder
     (\<lambda>px :: nat. \<lparr>dim0 = 1, dim1 = 4, dim2 = 1, entries = [[[1], [2], [3], [4 :: int]]]\<rparr>)
     (Some []) [] = Inl EmptyCatError \<and>
   (\<exists>R. temporal_embedder
          (\<lambda>px :: nat. \<lparr>dim0 = 1, dim1 = 4, dim2 = 1,
                 entries = [[[F32 16777216], [F32 16777216], [F32 16777216], [F32 16777216]]]\<rparr>)
          (Some [[F32 0], [F32 1]]) [0, 1] = Inr R \<and>
        dim1 R = 8 \<and>
        entries R ! 0 ! 4 ! 0 - entries R ! 0 ! 0 ! 0 \<noteq> F32 1 - F32 0)"
proof -
  have e: "temporal_embedder
          (\<lambda>px :: nat. \<lparr>dim0 = 1, dim1 = 4, dim2 = 1,
                 entries = [[[F32 16777216], [F32 16777216], [F32 16777216], [F32 16777216]]]\<rparr>)
          (Some [[F32 0], [F32 1]]) [0, 1]
        = Inr \<lparr>dim0 = 1, dim1 = 8, dim2 = 1,
               entries = [[[F32 16777216], [F32 16777216], [F32 16777216], [F32 16777216],
                           [F32 16777216], [F32 16777216], [F32 16777216], [F32 16777216]]]\<rparr>"
    by (simp add: temporal_embedder_def add_temporal_embedding_def broadcast_def f32_sums Let_def)
  have d: "F32 16777216 - F32 16777216 \<noteq> F32 1 - F32 0" by (simp add: f32_sums)
  have n: "temporal_embedder
     (\<lambda>px :: nat. \<lparr>dim0 = 1, dim1 = 4, dim2 = 1, entries = [[[1], [2], [3], [4 :: int]]]\<rparr>)
     (Some []) [] = Inl EmptyCatError"
    by (simp add: temporal_embedder_def)
  show ?thesis unfolding e using n d by simp
qed

subsection \<open>The configuration as a dictionary\<close>

lemma config_init_vision_config:
  assumes "config_init other_equals_one default_vision from_pretrained attrs = Inr self_dict"
  shows "\<exists>vc. self_dict ''vision_config'' = Some (PyObject vc)"
  using assms
  by (auto simp: config_init_def set_vision_configs_def split: option.splits sum.splits)

text \<open>
  Claim C8. For an instance whose attribute \<^verbatim>\<open>vision_config\<close> is a vision configuration (as
  \<^verbatim>\<open>__init__\<close> leaves every instance, see \<open>config_init_vision_config\<close>), \<^verbatim>\<open>to_dict\<close>
  returns a dictionary whose entry \<^verbatim>\<open>vision_config\<close> is the dictionary form of that
  configuration, whose entry \<^verbatim>\<open>model_type\<close> is the class's own \<^verbatim>\<open>model_type\<close>, and whose
  other entries are the instance's attributes.
\<close>

theorem to_dict_vision_config:
  assumes "self_dict ''vision_config'' = Some (PyObject vc)"
  shows "\<exists>output. to_dict vision_to_dict cls_model_type self_dict = Inr output \<and>
           output ''vision_config'' = Some (PyDict (vision_to_dict vc)) \<and>
           output ''model_type'' = Some (PyStr cls_model_type) \<and>
           (\<forall>k. k \<noteq> ''vision_config'' \<and> k \<noteq> ''model_type'' \<longrightarrow> output k = self_dict k)"
  using assms by (simp add: to_dict_def)

theorem to_dict_vision_config_witness:
  "config_init (\<lambda>v. False) (7 :: nat) (\<lambda>n. Inr 9) (Map.empty(''vocab_size'' \<mapsto> PyInt 5))
     = Inr (Map.empty(''vocab_size'' \<mapsto> PyInt 5, ''vision_config'' \<mapsto> PyObject 7,
                      ''num_image_with_embedding'' \<mapsto> (PyNone :: (unit, nat) pyval))) \<and>
   (\<exists>output.
      to_dict (\<lambda>c. [(''hidden_size'', PyInt (int c))]) GitGPTBigCodeConfig_model_type
        (Map.empty(''vocab_size'' \<mapsto> PyInt 5, ''vision_config'' \<mapsto> PyObject 7,
                   ''num_image_with_embedding'' \<mapsto> (PyNone :: (unit, nat) pyval))) = Inr output \<and>
      output ''vision_config'' = Some (PyDict [(''hidden_size'', PyInt 7)]) \<and>
      output ''model_type'' = Some (PyStr ''git_llama'') \<and>
      output ''vocab_size'' = Some (PyInt 5))"
proof -
  let ?d = "Map.empty(''vocab_size'' \<mapsto> PyInt 5, ''vision_config'' \<mapsto> PyObject (7 :: nat),
                      ''num_image_with_embedding'' \<mapsto> (PyNone :: (unit, nat) pyval))"
  have i: "config_init (\<lambda>v. False) (7 :: nat) (\<lambda>n. Inr 9) (Map.empty(''vocab_size'' \<mapsto> PyInt 5)) = Inr ?d"
    by (simp add: config_init_def)
  have v: "?d ''vision_config'' = Some (PyObject 7)" by simp
  from to_dict_vision_config [of ?d 7 "\<lambda>c. [(''hidden_size'', PyInt (int c))]"
      GitGPTBigCodeConfig_model_type, OF v]
  obtain res where o:
      "to_dict (\<lambda>c. [(''hidden_size'', PyInt (int c))]) GitGPTBigCodeConfig_model_type ?d = Inr res"
      "res ''vision_config'' = Some (PyDict [(''hidden_size'', PyInt (int 7))])"
      "res ''model_type'' = Some (PyStr GitGPTBigCodeConfig_model_type)"
    and rest: "\<forall>k. k \<noteq> ''vision_config'' \<and> k \<noteq> ''model_type'' \<longrightarrow> res k = ?d k"
    by blast
  have "res ''vocab_size'' = Some (PyInt 5)" using rest [rule_format, of "''vocab_size''"] by simp
  moreover have "res ''model_type'' = Some (PyStr ''git_llama'')"
    using o(3) by (simp add: GitGPTBigCodeConfig_model_type_def)
  moreover have "res ''vision_config'' = Some (PyDict [(''hidden_size'', PyInt 7)])"
    using o(2) by simp
  ultimately show ?thesis using i o(1) by blast
qed

subsection \<open>The forward pass\<close>

lemma and_then_Inl: "and_then (l, Inl e) f = (l, Inl e)"
  by (simp add: and_then_def)

lemma and_then_Inr: "and_then (l, Inr x) f = (l @ fst (f x), snd (f x))"
  by (simp add: and_then_def split: prod.splits)

lemma and_then_result:
  assumes "and_then x f = (tr, Inr y)"
  shows "\<exists>l1 v l2. x = (l1, Inr v) \<and> f v = (l2, Inr y) \<and> tr = l1 @ l2"
  using assms by (auto simp: and_then_def split: prod.splits sum.splits)

lemma and_then_lifted_Inl: "and_then (lifted (Inl e)) f = ([], Inl e)"
  by (simp add: and_then_def lifted_def)

lemma and_then_raises: "and_then (raises e) f = ([], Inl e)"
  by (simp add: and_then_def raises_def)

lemma check_inputs_both:
  "input_ids0 \<noteq> None \<Longrightarrow> inputs_embeds0 \<noteq> None \<Longrightarrow> check_inputs input_ids0 inputs_embeds0 = Inl BothInputsError"
  by (auto simp: check_inputs_def)

lemma check_inputs_neither: "check_inputs None None = Inl NoInputsError"
  by (simp add: check_inputs_def)

lemma forward_both:
  "input_ids a \<noteq> None \<Longrightarrow> inputs_embeds a \<noteq> None \<Longrightarrow> forward m a = ([], Inl BothInputsError)"
  by (simp add: forward_def Let_def check_inputs_both and_then_lifted_Inl)

lemma forward_neither:
  "input_ids a = None \<Longrightarrow> inputs_embeds a = None \<Longrightarrow> forward m a = ([], Inl NoInputsError)"
  by (simp add: forward_def Let_def check_inputs_neither and_then_lifted_Inl)

lemma model_args_of_sel [simp]:
  "input_ids (model_args_of a u r) = input_ids a"
  "inputs_embeds (model_args_of a u r) = inputs_embeds a"
  "past_key_values (model_args_of a u r) = past_key_values a"
  "pixel_values (model_args_of a u r) = pixel_values a"
  "use_cache (model_args_of a u r) = u"
  "return_dict (model_args_of a u r) = Some r"
  by (simp_all add: model_args_of_def)

text \<open>
  Claim C7. A call with both token ids and embeddings, and a call with neither, raises, in
  the model and in the wrapper, and no stage of the forward pass was entered before: no
  visual encoding, no fusion, no mask. The result is the error alone.
\<close>

theorem both_or_neither_inputs_rejected:
  "(input_ids a \<noteq> None \<and> inputs_embeds a \<noteq> None \<longrightarrow> forward m a = ([], Inl BothInputsError)) \<and>
   (input_ids a = None \<and> inputs_embeds a = None \<longrightarrow> forward m a = ([], Inl NoInputsError)) \<and>
   (input_ids w \<noteq> None \<and> inputs_embeds w \<noteq> None \<longrightarrow>
      causal_lm_forward m w = ([], Inl BothInputsError)) \<and>
   (input_ids w = None \<and> inputs_embeds w = None \<longrightarrow>
      causal_lm_forward m w = ([], Inl NoInputsError))"
  by (simp add: forward_both forward_neither causal_lm_forward_def Let_def and_then_Inl)


lemma encode_visual_past:
  "past \<noteq> None \<Longrightarrow> encode_visual ie vp te pv past = returns None"
  by (auto simp: encode_visual_def split: option.splits)

lemma forward_pixel_values_past:
  assumes "past_key_values a \<noteq> None"
  shows "forward m (a\<lparr>pixel_values := pv\<rparr>) = forward m (a\<lparr>pixel_values := None\<rparr>)"
  using assms
  by (simp add: forward_def Let_def encode_visual_past split_def cong: if_cong option.case_cong)

lemma model_args_of_pixel_values:
  "model_args_of (a\<lparr>pixel_values := pv\<rparr>) u r = (model_args_of a u r)\<lparr>pixel_values := pv\<rparr>"
  by (simp add: model_args_of_def)

text \<open>
  Claim C9. With a past supplied, the wrapper returns the same result (stages, error or
  output with its logits, loss and cache) for every value of \<^verbatim>\<open>pixel_values\<close> as for none:
  the vision part returns no features without entering its stage, and the visual block
  that stands for them has length 0.
\<close>

theorem pixel_values_ignored_with_past:
  assumes "past_key_values a \<noteq> None"
  shows "causal_lm_forward m (a\<lparr>pixel_values := pv\<rparr>) = causal_lm_forward m (a\<lparr>pixel_values := None\<rparr>) \<and>
         encode_visual (image_encoder m) (visual_projection m) (img_temporal_embedding m)
           pv (past_key_values a) = ([], Inr None) \<and>
         dim1 (default_visual_features None emb) = 0"
proof -
  have "forward m ((model_args_of a u r)\<lparr>pixel_values := pv\<rparr>)
          = forward m ((model_args_of a u r)\<lparr>pixel_values := None\<rparr>)" for u r
    using assms by (intro forward_pixel_values_past) simp
  then have "causal_lm_forward m (a\<lparr>pixel_values := pv\<rparr>)
               = causal_lm_forward m (a\<lparr>pixel_values := None\<rparr>)"
    by (simp add: causal_lm_forward_def Let_def model_args_of_pixel_values cong: option.case_cong if_cong)
  then show ?thesis
    using assms by (simp add: encode_visual_past returns_def default_visual_features_def)
qed

lemma forward_output_form:
  assumes "forward m a = (tr, Inr out)"
  shows "\<exists>st. out = model_output (resolve (return_dict a) (config_use_return_dict (config m)))
                       (resolve (use_cache a) (config_use_cache (config m)))
                       (resolve (output_attentions a) (config_output_attentions (config m)))
                       (resolve (output_hidden_states a) (config_output_hidden_states (config m)))
                       (config_add_cross_attention (config m)) st"
  using assms unfolding forward_def Let_def
  by (auto dest!: and_then_result simp: returns_def raises_def split: prod.splits if_splits)

lemma causal_lm_forward_form:
  assumes "causal_lm_forward m a = (tr, Inr res)"
  shows "\<exists>l outputs loss1 logits1.
           forward m (model_args_of a (case labels a of Some _ \<Rightarrow> Some False | None \<Rightarrow> use_cache a)
                        (resolve (return_dict a) (config_use_return_dict (config m))))
             = (l, Inr outputs) \<and>
           lm_output (resolve (return_dict a) (config_use_return_dict (config m)))
             loss1 logits1 outputs = Inr res"
proof -
  from assms obtain l1 outputs l2 where
      fw: "forward m (model_args_of a (case labels a of Some _ \<Rightarrow> Some False | None \<Rightarrow> use_cache a)
                        (resolve (return_dict a) (config_use_return_dict (config m))))
             = (l1, Inr outputs)"
    and r1: "and_then (at_stage LmHead (Inr (lm_head m
                  (case outputs of TupleResult h _ \<Rightarrow> h | DictResult d \<Rightarrow> last_hidden_state d))))
                (\<lambda>logits1. and_then
                   (case labels a of
                      None \<Rightarrow> returns None
                    | Some _ \<Rightarrow> at_stage LossComputation
                        (lm_loss (cross_entropy m) (config_vocab_size (config m))
                           (image_patch_tokens m) logits1 (labels a)))
                   (\<lambda>loss1. lifted (lm_output
                       (resolve (return_dict a) (config_use_return_dict (config m)))
                       loss1 logits1 outputs))) = (l2, Inr res)"
    unfolding causal_lm_forward_def Let_def
    by (blast dest: and_then_result)
  from and_then_result [OF r1] obtain l3 logits1 l4 where
    r2: "and_then
           (case labels a of
              None \<Rightarrow> returns None
            | Some _ \<Rightarrow> at_stage LossComputation
                (lm_loss (cross_entropy m) (config_vocab_size (config m))
                   (image_patch_tokens m) logits1 (labels a)))
           (\<lambda>loss1. lifted (lm_output
               (resolve (return_dict a) (config_use_return_dict (config m)))
               loss1 logits1 outputs)) = (l4, Inr res)"
    by blast
  from and_then_result [OF r2] obtain l5 loss1 l6 where
    "lifted (lm_output (resolve (return_dict a) (config_use_return_dict (config m)))
       loss1 logits1 outputs) = (l6, Inr res)"
    by blast
  then have "lm_output (resolve (return_dict a) (config_use_return_dict (config m)))
       loss1 logits1 outputs = Inr res"
    by (simp add: lifted_def)
  with fw show ?thesis by blast
qed

text \<open>
  Claim C10. With labels supplied, the wrapper runs as if the caller had passed
  \<^verbatim>\<open>use_cache=False\<close>, whatever the caller and the configuration say, and what it returns
  holds no cache: the field \<^verbatim>\<open>past_key_values\<close> of the output is None, and the tuple form
  has no entry for it.
\<close>

theorem labels_disable_cache:
  assumes "labels a \<noteq> None"
    and "causal_lm_forward m a = (tr, Inr res)"
  shows "(case res of
            LMDict d \<Rightarrow> lm_past_key_values d = None
          | LMTuple items \<Rightarrow> (\<forall>p. PresentsItem p \<notin> set items)) \<and>
         causal_lm_forward m a = causal_lm_forward m (a\<lparr>use_cache := Some False\<rparr>)"
proof -
  obtain lab where lab: "labels a = Some lab" using assms(1) by auto
  let ?rd = "resolve (return_dict a) (config_use_return_dict (config m))"
  have same: "causal_lm_forward m a = causal_lm_forward m (a\<lparr>use_cache := Some False\<rparr>)"
    by (simp add: causal_lm_forward_def Let_def lab model_args_of_def)
  from causal_lm_forward_form [OF assms(2)] obtain l outputs loss1 logits1 where
      fw: "forward m (model_args_of a (Some False) ?rd) = (l, Inr outputs)"
    and lo: "lm_output ?rd loss1 logits1 outputs = Inr res"
    by (auto simp: lab)
  from forward_output_form [OF fw] obtain st where
    out: "outputs = model_output ?rd False
            (resolve (output_attentions a) (config_output_attentions (config m)))
            (resolve (output_hidden_states a) (config_output_hidden_states (config m)))
            (config_add_cross_attention (config m)) st"
    by (auto simp: model_args_of_def resolve_def)
  have "case res of
          LMDict d \<Rightarrow> lm_past_key_values d = None
        | LMTuple items \<Rightarrow> (\<forall>p. PresentsItem p \<notin> set items)"
    using lo unfolding out
    by (auto simp: lm_output_def model_output_def optional_item_def Let_def
          split: if_splits option.splits)
  then show ?thesis using same by simp
qed


theorem both_or_neither_inputs_rejected_witness:
  "input_ids (model_args_of (example_args\<lparr>inputs_embeds :=
       Some \<lparr>dim0 = 1, dim1 = 3, dim2 = 1, entries = [[[1], [2], [3]]]\<rparr>\<rparr>) None True) \<noteq> None \<and>
   inputs_embeds (model_args_of (example_args\<lparr>inputs_embeds :=
       Some \<lparr>dim0 = 1, dim1 = 3, dim2 = 1, entries = [[[1], [2], [3]]]\<rparr>\<rparr>) None True) \<noteq> None \<and>
   forward example_model (model_args_of (example_args\<lparr>inputs_embeds :=
       Some \<lparr>dim0 = 1, dim1 = 3, dim2 = 1, entries = [[[1], [2], [3]]]\<rparr>\<rparr>) None True)
     = ([], Inl BothInputsError) \<and>
   input_ids (example_args\<lparr>input_ids := None\<rparr>) = None \<and>
   inputs_embeds (example_args\<lparr>input_ids := None\<rparr>) = None \<and>
   causal_lm_forward example_model (example_args\<lparr>input_ids := None\<rparr>) = ([], Inl NoInputsError)"
proof -
  let ?both = "model_args_of (example_args\<lparr>inputs_embeds :=
       Some \<lparr>dim0 = 1, dim1 = 3, dim2 = 1, entries = [[[1], [2], [3 :: int]]]\<rparr>\<rparr>) None True"
  let ?neither = "example_args\<lparr>input_ids := None\<rparr>"
  have b: "input_ids ?both \<noteq> None" "inputs_embeds ?both \<noteq> None"
    by (simp_all add: example_args_def)
  have n: "input_ids ?neither = None" "inputs_embeds ?neither = None"
    by (simp_all add: example_args_def)
  from both_or_neither_inputs_rejected [of ?both example_model ?neither] b n
  have "forward example_model ?both = ([], Inl BothInputsError)"
    and "causal_lm_forward example_model ?neither = ([], Inl NoInputsError)"
    by blast+
  with b n show ?thesis by blast
qed

theorem pixel_values_ignored_with_past_witness:
  "past_key_values example_step_args \<noteq> None \<and>
   causal_lm_forward example_model (example_step_args\<lparr>pixel_values := Some (Rank4 3)\<rparr>)
     = causal_lm_forward example_model (example_step_args\<lparr>pixel_values := None\<rparr>) \<and>
   causal_lm_forward example_model (example_step_args\<lparr>pixel_values := None\<rparr>)
     = ([TextEmbedding, Fusion, PositionEmbedding, MaskComposition, DecoderBlock 0, FinalNorm, LmHead],
        Inr (LMDict \<lparr>loss = None,
                     logits = \<lparr>dim0 = 1, dim1 = 1, dim2 = 2, entries = [[[9, 9]]]\<rparr>,
                     lm_past_key_values = Some [1], lm_hidden_states = None,
                     lm_attentions = None\<rparr>))"
proof -
  have p: "past_key_values example_step_args \<noteq> None" by (simp add: example_step_args_def)
  have e: "causal_lm_forward example_model (example_step_args\<lparr>pixel_values := None\<rparr>)
     = ([TextEmbedding, Fusion, PositionEmbedding, MaskComposition, DecoderBlock 0, FinalNorm, LmHead],
        Inr (LMDict \<lparr>loss = None,
                     logits = \<lparr>dim0 = 1, dim1 = 1, dim2 = 2, entries = [[[9, 9]]]\<rparr>,
                     lm_past_key_values = Some [1], lm_hidden_states = None,
                     lm_attentions = None\<rparr>))"
    by code_simp
  from pixel_values_ignored_with_past [OF p, of example_model "Some (Rank4 3)"]
  have "causal_lm_forward example_model (example_step_args\<lparr>pixel_values := Some (Rank4 3)\<rparr>)
     = causal_lm_forward example_model (example_step_args\<lparr>pixel_values := None\<rparr>)"
    by blast
  with p e show ?thesis by blast
qed

theorem labels_disable_cache_witness:
  "labels example_args \<noteq> None \<and> use_cache example_args = Some True \<and>
   config_use_cache (config example_model) \<and>
   causal_lm_forward example_model example_args
     = ([TextEmbedding, Fusion, PositionEmbedding, MaskComposition, DecoderBlock 0, FinalNorm,
         LmHead, LossComputation],
        Inr (LMDict \<lparr>loss = Some 25,
                     logits = \<lparr>dim0 = 1, dim1 = 3, dim2 = 2, entries = [[[5, 5], [7, 7], [9, 9]]]\<rparr>,
                     lm_past_key_values = None, lm_hidden_states = None,
                     lm_attentions = None\<rparr>)) \<and>
   lm_past_key_values \<lparr>loss = Some (25 :: int),
                     logits = \<lparr>dim0 = 1, dim1 = 3, dim2 = 2, entries = [[[5, 5], [7, 7], [9, 9]]]\<rparr>,
                     lm_past_key_values = None :: nat list option, lm_hidden_states = None,
                     lm_attentions = None\<rparr> = None"
proof -
  let ?d = "\<lparr>loss = Some (25 :: int),
                     logits = \<lparr>dim0 = 1, dim1 = 3, dim2 = 2, entries = [[[5, 5], [7, 7], [9, 9]]]\<rparr>,
                     lm_past_key_values = None :: nat list option, lm_hidden_states = None,
                     lm_attentions = None\<rparr>"
  have l: "labels example_args \<noteq> None" and u: "use_cache example_args = Some True"
    by (simp_all add: example_args_def)
  have c: "config_use_cache (config example_model)" by (simp add: example_model_def)
  have e: "causal_lm_forward example_model example_args
     = ([TextEmbedding, Fusion, PositionEmbedding, MaskComposition, DecoderBlock 0, FinalNorm,
         LmHead, LossComputation], Inr (LMDict ?d))"
    by code_simp
  from labels_disable_cache [OF l e] have "lm_past_key_values ?d = None"
    by simp
  with l u c e show ?thesis by blast
qed

end
